theory Spec2Isabelle
  imports Complex_Main "HOL-Library.AList"
begin

section \<open>Rated data frames\<close>

text \<open>
  The storage backend of \<^verbatim>\<open>cloudkitty/storage/sqlalchemy/__init__.py\<close>, embedded
  shallowly. The table of rated data frames is a list of rows; a query is the list it
  selects, each \<^verbatim>\<open>q.filter(...)\<close> being one \<open>filter\<close>. A decimal number, in a
  column as in Python's \<^verbatim>\<open>Decimal\<close>, is the \<open>rat\<close> it denotes; a
  \<^verbatim>\<open>datetime\<close> is a number of seconds. A column that the write path may leave
  unset (\<^verbatim>\<open>usage_start_dt.get(tenant_id)\<close>) is an \<open>option\<close>, \<open>None\<close> being NULL.
\<close>

type_synonym datetime = int

text \<open>
  The \<^verbatim>\<open>desc\<close> column holds \<^verbatim>\<open>json.dumps(frame['desc'])\<close> and is only read back
  through \<^verbatim>\<open>desc.cast(JSON)[key].astext\<close>. It is modelled by the top-level members
  of that document, each with the text the operator yields (\<open>None\<close> for a JSON null).
  A document that is no object, like the \<^verbatim>\<open>""\<close> of the sentinel, has no member.
\<close>

type_synonym json_doc = "(string \<times> string option) list"

record frame =
  tenant_id :: string
  res_type :: string
  unit :: string
  qty :: rat
  rate :: rat
  desc :: json_doc
  frame_begin :: "datetime option"
  frame_end :: "datetime option"

text \<open>
  \<^verbatim>\<open>cloudkitty.utils\<close> is not part of the sources at hand: the two clock readings
  and the timestamp conversion it provides are parameters.
\<close>

record ck_utils =
  get_month_start :: datetime
  get_next_month :: datetime
  ts2dt :: "int \<Rightarrow> datetime"

datatype error = NoTimeFrame | KeyError string | AttributeError | TypeError

subsection \<open>Decimal arithmetic\<close>

text \<open>
  The sums of SQL are exact, and so is the constructor \<^verbatim>\<open>Decimal(x)\<close>. An addition
  of two \<^verbatim>\<open>Decimal\<close>s in Python is rounded to the precision of the decimal context,
  28 significant digits, ties going to the even neighbour (\<^verbatim>\<open>ROUND_HALF_EVEN\<close>);
  the limits of the exponent are not modelled.

  \<open>digits n\<close> is the number of decimal digits of a positive \<open>n\<close>, and
  \<open>adjusted x\<close> the exponent of the leading digit of \<open>x\<close>, as
  \<^verbatim>\<open>Decimal.adjusted()\<close> gives it: it is found among the two candidates that the
  digits of numerator and denominator leave.
\<close>

function digits :: "int \<Rightarrow> int" where
  "digits n = (if n < 10 then 1 else 1 + digits (n div 10))"
  by pat_completeness auto
termination
  by (relation "measure nat") auto

declare digits.simps [simp del]

definition adjusted :: "rat \<Rightarrow> int" where
  "adjusted x =
     (let (p, q) = quotient_of \<bar>x\<bar>;
          d = digits p - digits q
      in if 10 powi d \<le> \<bar>x\<bar> then d else d - 1)"

definition round_half_even :: "rat \<Rightarrow> int" where
  "round_half_even x =
     (let n = \<lfloor>x\<rfloor>; r = x - of_int n
      in if r < 1 / 2 then n else if 1 / 2 < r then n + 1 else if even n then n else n + 1)"

definition context_round :: "rat \<Rightarrow> rat" where
  "context_round x =
     (if x = 0 then 0
      else let quantum = 10 powi (adjusted x - 27)
           in of_int (round_half_even (x / quantum)) * quantum)"

text \<open>\<^verbatim>\<open>a + b\<close> and \<^verbatim>\<open>a += b\<close> on two \<^verbatim>\<open>Decimal\<close>s.\<close>

definition decimal_add :: "rat \<Rightarrow> rat \<Rightarrow> rat" where
  "decimal_add a b = context_round (a + b)"

subsection \<open>SQL expressions\<close>

text \<open>\<^verbatim>\<open>if not begin: begin = default\<close>; a datetime is never falsy.\<close>

definition boundary :: "datetime option \<Rightarrow> datetime \<Rightarrow> datetime" where
  "boundary given dflt = (case given of None \<Rightarrow> dflt | Some t \<Rightarrow> t)"

text \<open>A comparison with NULL is not true, so the row is not selected.\<close>

definition col_ge :: "datetime option \<Rightarrow> datetime \<Rightarrow> bool" where
  "col_ge c t = (case c of None \<Rightarrow> False | Some x \<Rightarrow> t \<le> x)"

definition col_le :: "datetime option \<Rightarrow> datetime \<Rightarrow> bool" where
  "col_le c t = (case c of None \<Rightarrow> False | Some x \<Rightarrow> x \<le> t)"

text \<open>
  \<^verbatim>\<open>if value: q = q.filter(column == value)\<close>: \<^verbatim>\<open>None\<close> and the empty string are
  falsy and leave the query as it is.
\<close>

definition filter_eq :: "(frame \<Rightarrow> string) \<Rightarrow> string option \<Rightarrow> frame list \<Rightarrow> frame list" where
  "filter_eq col v q =
     (case v of None \<Rightarrow> q
      | Some s \<Rightarrow> if s = [] then q else filter (\<lambda>f. col f = s) q)"

text \<open>\<^verbatim>\<open>func.sum\<close>: the sum over no row is NULL, which \<^verbatim>\<open>scalar()\<close> returns as \<^verbatim>\<open>None\<close>.\<close>

fun sql_sum :: "rat list \<Rightarrow> rat option" where
  "sql_sum [] = None"
| "sql_sum (x # xs) = Some (sum_list (x # xs))"

subsection \<open>get_total and get_tenants\<close>

definition get_total ::
  "ck_utils \<Rightarrow> frame list \<Rightarrow> datetime option \<Rightarrow> datetime option \<Rightarrow> string option \<Rightarrow> string option
     \<Rightarrow> rat option" where
  "get_total u table b e tenant service =
     (let b = boundary b (get_month_start u);
          e = boundary e (get_next_month u);
          q = table;
          q = filter_eq tenant_id tenant q;
          q = filter_eq res_type service q;
          q = filter (\<lambda>f. col_ge (frame_begin f) b \<and> col_le (frame_end f) e) q
      in sql_sum (map rate q))"

text \<open>
  \<^verbatim>\<open>SELECT DISTINCT tenant_id\<close>; SQL leaves the order of the result open, the model
  lists each tenant where the table has its last row.
\<close>

definition get_tenants ::
  "ck_utils \<Rightarrow> frame list \<Rightarrow> datetime option \<Rightarrow> datetime option \<Rightarrow> string list" where
  "get_tenants u table b e =
     (let b = boundary b (get_month_start u);
          e = boundary e (get_next_month u);
          q = table;
          q = filter (\<lambda>f. col_ge (frame_begin f) b \<and> col_le (frame_end f) e) q;
          tenants = remdups (map tenant_id q)
      in tenants)"

subsection \<open>get_time_frame\<close>

text \<open>
  The keyword arguments \<^verbatim>\<open>**filters\<close>: a filter names a column and gives the value
  it must equal. \<^verbatim>\<open>begin\<close> and \<^verbatim>\<open>end\<close> are parameters of their own, so they are
  no keys here; filters on the serialised \<^verbatim>\<open>desc\<close> text and on the row id are left
  out. \<open>None\<close> is a key that is absent or bound to \<^verbatim>\<open>None\<close>.
\<close>

record filters =
  by_tenant_id :: "string option"
  by_res_type :: "string option"
  by_unit :: "string option"
  by_qty :: "rat option"
  by_rate :: "rat option"

text \<open>A decimal filter value: \<^verbatim>\<open>None\<close> and zero are falsy.\<close>

definition filter_num :: "(frame \<Rightarrow> rat) \<Rightarrow> rat option \<Rightarrow> frame list \<Rightarrow> frame list" where
  "filter_num col v q =
     (case v of None \<Rightarrow> q
      | Some x \<Rightarrow> if x = 0 then q else filter (\<lambda>f. col f = x) q)"

definition truthy :: "string option \<Rightarrow> bool" where
  "truthy v = (case v of None \<Rightarrow> False | Some s \<Rightarrow> s \<noteq> [])"

text \<open>
  \<^verbatim>\<open>to_cloudkitty(self._collector)\<close> belongs to the frame model and the collector,
  which are given from outside: it is the parameter \<open>to_cloudkitty\<close>.
\<close>

definition get_time_frame ::
  "ck_utils \<Rightarrow> (frame \<Rightarrow> 'a) \<Rightarrow> frame list \<Rightarrow> int \<Rightarrow> int \<Rightarrow> filters \<Rightarrow> error + 'a list" where
  "get_time_frame u to_cloudkitty table b e fl =
     (let q = table;
          q = filter (\<lambda>f. col_ge (frame_begin f) (ts2dt u b) \<and> col_le (frame_end f) (ts2dt u e)) q;
          q = filter_eq tenant_id (by_tenant_id fl) q;
          q = filter_eq res_type (by_res_type fl) q;
          q = filter_eq unit (by_unit fl) q;
          q = filter_num qty (by_qty fl) q;
          q = filter_num rate (by_rate fl) q;
          q = (if \<not> truthy (by_res_type fl)
               then filter (\<lambda>f. res_type f \<noteq> ''_NO_DATA_'') q else q);
          count = length q
      in if count = 0 then Inl NoTimeFrame else Inr (map to_cloudkitty q))"

section \<open>The write path\<close>

text \<open>
  A usage record as the dispatcher hands it over, a dictionary: \<open>None\<close> is a key that
  is missing. The \<^verbatim>\<open>desc\<close> value is given as the members its serialisation has.
\<close>

record vol_dict =
  vol_qty :: "rat option"
  vol_unit :: "string option"

record rating_dict =
  price :: "rat option"

record usage_frame =
  vol :: "vol_dict option"
  rating :: "rating_dict option"
  frame_desc :: "json_doc option"

text \<open>
  The state of the storage object: \<^verbatim>\<open>_session\<close> maps a tenant to its open
  transaction, which is the list of rows added to it so far; \<^verbatim>\<open>_has_data\<close>,
  \<^verbatim>\<open>usage_start_dt\<close> and \<^verbatim>\<open>usage_end_dt\<close> are the dictionaries of the base class.
  An operation returns the state it leaves, with the exception it raised, if any.
\<close>

record storage =
  session :: "string \<rightharpoonup> frame list"
  has_data :: "string \<rightharpoonup> bool"
  usage_start_dt :: "string \<rightharpoonup> datetime"
  usage_end_dt :: "string \<rightharpoonup> datetime"

type_synonym result = "error option \<times> storage"

definition check_session :: "storage \<Rightarrow> string \<Rightarrow> storage" where
  "check_session s tenant =
     (case session s tenant of
        None \<Rightarrow> s\<lparr>session := (session s)(tenant \<mapsto> [])\<rparr>
      | Some _ \<Rightarrow> s)"

text \<open>\<^verbatim>\<open>self._session[kwargs.get('tenant_id')].add(frame)\<close>\<close>

definition add_time_frame :: "storage \<Rightarrow> frame \<Rightarrow> result" where
  "add_time_frame s f =
     (case session s (tenant_id f) of
        None \<Rightarrow> (Some (KeyError (tenant_id f)), s)
      | Some pending \<Rightarrow> (None, s\<lparr>session := (session s)(tenant_id f \<mapsto> pending @ [f])\<rparr>))"

definition append_time_frame :: "storage \<Rightarrow> string \<Rightarrow> usage_frame \<Rightarrow> string \<Rightarrow> result" where
  "append_time_frame s rtype fr tenant =
     (case vol fr of
        None \<Rightarrow> (Some (KeyError ''vol''), s)
      | Some vol_dict \<Rightarrow>
     (case vol_qty vol_dict of
        None \<Rightarrow> (Some (KeyError ''qty''), s)
      | Some qty' \<Rightarrow>
     (case vol_unit vol_dict of
        None \<Rightarrow> (Some (KeyError ''unit''), s)
      | Some unit' \<Rightarrow>
     (let rating_dict = (case rating fr of None \<Rightarrow> \<lparr>price = None\<rparr> | Some r \<Rightarrow> r);
          rate' = price rating_dict;
          rate' = (case rate' of None \<Rightarrow> 0 | Some x \<Rightarrow> if x = 0 then 0 else x)
      in case frame_desc fr of
           None \<Rightarrow> (Some (KeyError ''desc''), s)
         | Some desc' \<Rightarrow>
             add_time_frame s
               \<lparr>tenant_id = tenant, res_type = rtype, unit = unit', qty = qty', rate = rate',
                desc = desc', frame_begin = usage_start_dt s tenant,
                frame_end = usage_end_dt s tenant\<rparr>))))"

definition empty_frame :: usage_frame where
  "empty_frame =
     \<lparr>vol = Some \<lparr>vol_qty = Some 0, vol_unit = Some ''None''\<rparr>,
      rating = Some \<lparr>price = Some 0\<rparr>, frame_desc = Some []\<rparr>"

text \<open>\<^verbatim>\<open>if not self._has_data.get(tenant_id)\<close>: no entry and \<^verbatim>\<open>False\<close> are falsy.\<close>

definition pre_commit :: "storage \<Rightarrow> string \<Rightarrow> result" where
  "pre_commit s tenant =
     (let s = check_session s tenant
      in if \<not> (case has_data s tenant of None \<Rightarrow> False | Some h \<Rightarrow> h)
         then append_time_frame s ''_NO_DATA_'' empty_frame tenant
         else (None, s))"

fun dispatch_frames :: "storage \<Rightarrow> string \<Rightarrow> usage_frame list \<Rightarrow> string \<Rightarrow> result" where
  "dispatch_frames s service [] tenant = (None, s)"
| "dispatch_frames s service (fr # frs) tenant =
     (case append_time_frame s service fr tenant of
        (Some err, s') \<Rightarrow> (Some err, s')
      | (None, s') \<Rightarrow>
          dispatch_frames (s'\<lparr>has_data := (has_data s')(tenant \<mapsto> True)\<rparr>) service frs tenant)"

fun dispatch_services :: "storage \<Rightarrow> (string \<times> usage_frame list) list \<Rightarrow> string \<Rightarrow> result" where
  "dispatch_services s [] tenant = (None, s)"
| "dispatch_services s ((service, frs) # rest) tenant =
     (case dispatch_frames s service frs tenant of
        (Some err, s') \<Rightarrow> (Some err, s')
      | (None, s') \<Rightarrow> dispatch_services s' rest tenant)"

definition dispatch :: "storage \<Rightarrow> (string \<times> usage_frame list) list \<Rightarrow> string \<Rightarrow> result" where
  "dispatch s data tenant = dispatch_services (check_session s tenant) data tenant"

section \<open>Aggregation queries\<close>

text \<open>\<^verbatim>\<open>desc.cast(JSON)[key].astext\<close>: NULL when the document has no such member.\<close>

definition astext :: "json_doc \<Rightarrow> string \<Rightarrow> string option" where
  "astext d k = (case map_of d k of None \<Rightarrow> None | Some v \<Rightarrow> v)"

text \<open>The two \<^verbatim>\<open>sqlalchemy.case\<close> expressions. The key of the first is one string.\<close>

definition instance_id_case :: "frame \<Rightarrow> string option" where
  "instance_id_case f =
     (if res_type f = ''image'' then astext (desc f) ''properties.instance_uuid''
      else astext (desc f) ''instance_id'')"

definition instance_name_case :: "frame \<Rightarrow> string option" where
  "instance_name_case f =
     (if res_type f = ''compute'' then astext (desc f) ''name''
      else if res_type f \<in> set [''network.bw.in'', ''network.bw.out'']
        then astext (desc f) ''display_name''
      else astext (desc f) ''instance_name'')"

text \<open>
  \<^verbatim>\<open>GROUP BY\<close>: one group for every key that occurs, holding the rows with that key.
  SQL leaves the order of the groups open; the model lists each group where the
  table has its last row, and the rows of a group in the order of the table.
\<close>

definition group_by :: "(frame \<Rightarrow> 'k) \<Rightarrow> frame list \<Rightarrow> ('k \<times> frame list) list" where
  "group_by key q = map (\<lambda>k. (k, filter (\<lambda>f. key f = k) q)) (remdups (map key q))"

text \<open>Python dictionaries whose content is folded over are association lists.\<close>

definition setdefault :: "'k \<Rightarrow> 'v \<Rightarrow> ('k \<times> 'v) list \<Rightarrow> ('k \<times> 'v) list" where
  "setdefault k v d = (case map_of d k of None \<Rightarrow> d @ [(k, v)] | Some _ \<Rightarrow> d)"

text \<open>The value \<^verbatim>\<open>d[k]\<close> has once \<^verbatim>\<open>d.setdefault(k, v)\<close> has run.\<close>

definition setdefault_value :: "'k \<Rightarrow> 'v \<Rightarrow> ('k \<times> 'v) list \<Rightarrow> 'v" where
  "setdefault_value k v d = (case map_of d k of None \<Rightarrow> v | Some x \<Rightarrow> x)"

record entry =
  entry_qty :: rat
  entry_unit :: string
  entry_rate :: rat

subsection \<open>get_project_usage\<close>

record project_row =
  p_tenant_id :: string
  p_res_type :: string
  p_instance_id :: "string option list"
  p_instance_name :: "string option list"
  p_unit :: string
  p_qty :: rat
  p_rate :: rat

definition project_usage_query ::
  "ck_utils \<Rightarrow> frame list \<Rightarrow> datetime option \<Rightarrow> datetime option \<Rightarrow> string option \<Rightarrow> string option
     \<Rightarrow> project_row list" where
  "project_usage_query u table b e tenant service =
     (let b = boundary b (get_month_start u);
          e = boundary e (get_next_month u);
          q = table;
          q = filter_eq tenant_id tenant q;
          q = filter_eq res_type service q;
          q = filter (\<lambda>f. col_ge (frame_begin f) b \<and> col_le (frame_end f) e) q;
          q = filter (\<lambda>f. res_type f \<noteq> ''_NO_DATA_'') q;
          groups = group_by (\<lambda>f. (tenant_id f, res_type f, unit f)) q
      in map (\<lambda>((t, rt, un), g).
                \<lparr>p_tenant_id = t, p_res_type = rt,
                 p_instance_id = remdups (map instance_id_case g),
                 p_instance_name = remdups (map instance_name_case g),
                 p_unit = un,
                 p_qty = sum_list (map qty g),
                 p_rate = sum_list (map rate g)\<rparr>) groups)"

text \<open>
  A tenant's dictionary holds \<^verbatim>\<open>{'rate': ...}\<close> under the key \<^verbatim>\<open>'total'\<close> and a list
  of entries under every resource type, in one key space.
\<close>

datatype tenant_value = TotalRate rat | Usages "entry list"

type_synonym tenant_usage = "(string \<times> tenant_value) list"

text \<open>
  The body of the loop. The dictionaries nested in \<^verbatim>\<open>usage\<close> are changed in place
  by the source; here the changed dictionary is stored back under its key.
\<close>

definition project_usage_step ::
  "(string \<times> tenant_usage) list \<Rightarrow> project_row \<Rightarrow> error + (string \<times> tenant_usage) list" where
  "project_usage_step usage r =
     (let tenant = p_tenant_id r;
          resource_type = p_res_type r;
          usage = setdefault tenant [] usage;
          tenant_usage = setdefault_value tenant [] usage;
          tenant_usage = setdefault ''total'' (TotalRate 0) tenant_usage
      in case setdefault_value ''total'' (TotalRate 0) tenant_usage of
           Usages _ \<Rightarrow> Inl TypeError
         | TotalRate t \<Rightarrow>
          (let tenant_usage =
                 AList.update ''total'' (TotalRate (decimal_add t (p_rate r))) tenant_usage;
               tenant_usage = setdefault resource_type (Usages []) tenant_usage
           in case setdefault_value resource_type (Usages []) tenant_usage of
                TotalRate _ \<Rightarrow> Inl AttributeError
              | Usages es \<Rightarrow>
                 (let tenant_usage = AList.update resource_type
                        (Usages (es @ [\<lparr>entry_qty = p_qty r, entry_unit = p_unit r,
                                       entry_rate = p_rate r\<rparr>])) tenant_usage
                  in Inr (AList.update tenant tenant_usage usage))))"

fun project_usage_loop ::
  "(string \<times> tenant_usage) list \<Rightarrow> project_row list \<Rightarrow> error + (string \<times> tenant_usage) list" where
  "project_usage_loop usage [] = Inr usage"
| "project_usage_loop usage (r # rs) =
     (case project_usage_step usage r of
        Inl err \<Rightarrow> Inl err
      | Inr usage' \<Rightarrow> project_usage_loop usage' rs)"

definition get_project_usage ::
  "ck_utils \<Rightarrow> frame list \<Rightarrow> datetime option \<Rightarrow> datetime option \<Rightarrow> string option \<Rightarrow> string option
     \<Rightarrow> error + (string \<times> tenant_usage) list" where
  "get_project_usage u table b e tenant service =
     project_usage_loop [] (project_usage_query u table b e tenant service)"

subsection \<open>get_instance_usage\<close>

record instance_row =
  i_tenant_id :: string
  i_res_type :: string
  i_unit :: string
  i_instance_id :: "string option"
  i_instance_name :: "string option list"
  i_qty :: rat
  i_rate :: rat

definition instance_usage_query ::
  "ck_utils \<Rightarrow> frame list \<Rightarrow> datetime option \<Rightarrow> datetime option \<Rightarrow> string option \<Rightarrow> string option
     \<Rightarrow> instance_row list" where
  "instance_usage_query u table b e tenant service =
     (let b = boundary b (get_month_start u);
          e = boundary e (get_next_month u);
          q = table;
          q = filter_eq tenant_id tenant q;
          q = filter_eq res_type service q;
          q = filter (\<lambda>f. col_ge (frame_begin f) b \<and> col_le (frame_end f) e) q;
          q = filter (\<lambda>f. res_type f \<noteq> ''_NO_DATA_'') q;
          groups = group_by (\<lambda>f. (tenant_id f, res_type f, unit f, instance_id_case f)) q
      in map (\<lambda>((t, rt, un, iid), g).
                \<lparr>i_tenant_id = t, i_res_type = rt, i_unit = un,
                 i_instance_id = iid,
                 i_instance_name = remdups (map instance_name_case g),
                 i_qty = sum_list (map qty g),
                 i_rate = sum_list (map rate g)\<rparr>) groups)"

text \<open>
  An instance's dictionary holds the array of names under \<^verbatim>\<open>'instance_name'\<close>, the
  id under \<^verbatim>\<open>'instance_id'\<close> and a list of entries under every resource type, again
  in one key space: \<^verbatim>\<open>append\<close> on the array of names extends it by an entry, on the
  id it raises.
\<close>

datatype name_item = Name "string option" | Appended entry

datatype instance_value = Names "name_item list" | Ident "string option" | Entries "entry list"

type_synonym instance_usage = "(string \<times> instance_value) list"

type_synonym tenant_instances = "(string option \<times> instance_usage) list"

definition instance_usage_step ::
  "(string \<times> tenant_instances) list \<Rightarrow> instance_row \<Rightarrow> error + (string \<times> tenant_instances) list" where
  "instance_usage_step usage r =
     (let tenant = i_tenant_id r;
          usage = setdefault tenant [] usage;
          tenant_usage = setdefault_value tenant [] usage;
          fresh = [(''instance_name'', Names (map Name (i_instance_name r))),
                   (''instance_id'', Ident (i_instance_id r))];
          tenant_usage = setdefault (i_instance_id r) fresh tenant_usage;
          instance_usage = setdefault_value (i_instance_id r) fresh tenant_usage;
          instance_usage = setdefault (i_res_type r) (Entries []) instance_usage;
          new = \<lparr>entry_qty = i_qty r, entry_unit = i_unit r, entry_rate = i_rate r\<rparr>
      in case setdefault_value (i_res_type r) (Entries []) instance_usage of
           Ident _ \<Rightarrow> Inl AttributeError
         | Names ns \<Rightarrow>
             Inr (AList.update tenant
                   (AList.update (i_instance_id r)
                     (AList.update (i_res_type r) (Names (ns @ [Appended new])) instance_usage)
                     tenant_usage) usage)
         | Entries es \<Rightarrow>
             Inr (AList.update tenant
                   (AList.update (i_instance_id r)
                     (AList.update (i_res_type r) (Entries (es @ [new])) instance_usage)
                     tenant_usage) usage))"

fun instance_usage_loop ::
  "(string \<times> tenant_instances) list \<Rightarrow> instance_row list \<Rightarrow> error + (string \<times> tenant_instances) list" where
  "instance_usage_loop usage [] = Inr usage"
| "instance_usage_loop usage (r # rs) =
     (case instance_usage_step usage r of
        Inl err \<Rightarrow> Inl err
      | Inr usage' \<Rightarrow> instance_usage_loop usage' rs)"

definition get_instance_usage ::
  "ck_utils \<Rightarrow> frame list \<Rightarrow> datetime option \<Rightarrow> datetime option \<Rightarrow> string option \<Rightarrow> string option
     \<Rightarrow> error + (string \<times> tenant_instances) list" where
  "get_instance_usage u table b e tenant service =
     instance_usage_loop [] (instance_usage_query u table b e tenant service)"

subsection \<open>get_bandwidth_hourly_usage\<close>

text \<open>
  A row of the pivot. \<^verbatim>\<open>begin\<close> and \<^verbatim>\<open>end\<close> are selected as text; the model keeps
  the value the text renders.
\<close>

record bandwidth_row =
  bw_begin :: "datetime option"
  bw_end :: "datetime option"
  bw_tenant_id :: string
  bw_unit :: string
  network_bw_in :: rat
  network_bw_out :: rat

text \<open>The dictionary \<^verbatim>\<open>usage['total']\<close>; the key \<^verbatim>\<open>'unit'\<close> is absent at first.\<close>

record bandwidth_total =
  total_in :: rat
  total_out :: rat
  total_unit :: "string option"

record bandwidth_usage =
  data :: "bandwidth_row list"
  total :: bandwidth_total

definition bandwidth_query ::
  "ck_utils \<Rightarrow> frame list \<Rightarrow> datetime option \<Rightarrow> datetime option \<Rightarrow> string option \<Rightarrow> string option
     \<Rightarrow> bandwidth_row list" where
  "bandwidth_query u table b e tenant service =
     (let b = boundary b (get_month_start u);
          e = boundary e (get_next_month u);
          q = table;
          q = filter_eq tenant_id tenant q;
          q = filter_eq res_type service q;
          q = filter (\<lambda>f. col_ge (frame_begin f) b \<and> col_le (frame_end f) e) q;
          q = filter (\<lambda>f. res_type f \<in> set [''network.bw.in'', ''network.bw.out'']) q;
          groups = group_by (\<lambda>f. (frame_begin f, frame_end f, tenant_id f, unit f)) q
      in map (\<lambda>((gb, ge, t, un), g).
                \<lparr>bw_begin = gb, bw_end = ge, bw_tenant_id = t, bw_unit = un,
                 network_bw_in =
                   sum_list (map (\<lambda>f. if res_type f = ''network.bw.in'' then qty f else 0) g),
                 network_bw_out =
                   sum_list (map (\<lambda>f. if res_type f = ''network.bw.out'' then qty f else 0) g)\<rparr>)
           groups)"

definition bandwidth_total_step :: "bandwidth_total \<Rightarrow> bandwidth_row \<Rightarrow> bandwidth_total" where
  "bandwidth_total_step tot r =
     \<lparr>total_in = decimal_add (total_in tot) (network_bw_in r),
      total_out = decimal_add (total_out tot) (network_bw_out r),
      total_unit = Some (bw_unit r)\<rparr>"

definition bandwidth_usage_of :: "bandwidth_row list \<Rightarrow> bandwidth_usage" where
  "bandwidth_usage_of result =
     \<lparr>data = result,
      total = foldl bandwidth_total_step \<lparr>total_in = 0, total_out = 0, total_unit = None\<rparr> result\<rparr>"

definition get_bandwidth_hourly_usage ::
  "ck_utils \<Rightarrow> frame list \<Rightarrow> datetime option \<Rightarrow> datetime option \<Rightarrow> string option \<Rightarrow> string option
     \<Rightarrow> bandwidth_usage" where
  "get_bandwidth_hourly_usage u table b e tenant service =
     bandwidth_usage_of (bandwidth_query u table b e tenant service)"

section \<open>Properties\<close>

subsection \<open>Notions used in the statements\<close>

text \<open>What an optional filter value asks of a column value.\<close>

definition wanted :: "string option \<Rightarrow> string \<Rightarrow> bool" where
  "wanted v x = (case v of None \<Rightarrow> True | Some s \<Rightarrow> s = [] \<or> x = s)"

definition wanted_num :: "rat option \<Rightarrow> rat \<Rightarrow> bool" where
  "wanted_num v x = (case v of None \<Rightarrow> True | Some y \<Rightarrow> y = 0 \<or> x = y)"

text \<open>Sample data for the concrete instances: a clock and a row stamped with a period.\<close>

definition sample_utils :: ck_utils where
  "sample_utils = \<lparr>get_month_start = 0, get_next_month = 100, ts2dt = (\<lambda>t. t)\<rparr>"

definition row ::
  "string \<Rightarrow> string \<Rightarrow> string \<Rightarrow> rat \<Rightarrow> rat \<Rightarrow> json_doc \<Rightarrow> datetime \<Rightarrow> datetime \<Rightarrow> frame" where
  "row t rt un q r d b e =
     \<lparr>tenant_id = t, res_type = rt, unit = un, qty = q, rate = r, desc = d,
      frame_begin = Some b, frame_end = Some e\<rparr>"

definition sentinel_row :: "string \<Rightarrow> datetime \<Rightarrow> datetime \<Rightarrow> frame" where
  "sentinel_row t b e = row t ''_NO_DATA_'' ''None'' 0 0 [] b e"

definition no_filters :: filters where
  "no_filters =
     \<lparr>by_tenant_id = None, by_res_type = None, by_unit = None, by_qty = None, by_rate = None\<rparr>"

definition sample_storage :: storage where
  "sample_storage =
     \<lparr>session = Map.empty, has_data = Map.empty,
      usage_start_dt = [''A'' \<mapsto> 0], usage_end_dt = [''A'' \<mapsto> 100]\<rparr>"

definition sample_usage :: "rat option \<Rightarrow> string option \<Rightarrow> usage_frame" where
  "sample_usage q un =
     \<lparr>vol = Some \<lparr>vol_qty = q, vol_unit = un\<rparr>, rating = Some \<lparr>price = Some (5 / 2)\<rparr>,
      frame_desc = Some [(''instance_id'', Some ''u1'')]\<rparr>"

text \<open>
  The additions that accumulate \<open>xs\<close> from \<open>a\<close> on are all exact: none of them
  is rounded by the decimal context.
\<close>

fun exact_sums :: "rat \<Rightarrow> rat list \<Rightarrow> bool" where
  "exact_sums a [] = True"
| "exact_sums a (x # xs) = (context_round (a + x) = a + x \<and> exact_sums (a + x) xs)"

text \<open>
  The sum of the rates of all entries a tenant's dictionary lists, and the two
  invariants of the loop of \<^verbatim>\<open>get_project_usage\<close>, over the rows seen so far.
\<close>

definition listed_rate :: "tenant_usage \<Rightarrow> rat" where
  "listed_rate tu =
     (\<Sum>(k, v) \<leftarrow> tu. case v of Usages es \<Rightarrow> sum_list (map entry_rate es) | TotalRate _ \<Rightarrow> 0)"

definition tenant_ok :: "tenant_usage \<Rightarrow> rat list \<Rightarrow> bool" where
  "tenant_ok tu rates =
     (distinct (map fst tu)
      \<and> map_of tu ''total'' = Some (TotalRate (foldl decimal_add 0 rates))
      \<and> listed_rate tu = sum_list rates)"

definition usage_inv :: "(string \<times> tenant_usage) list \<Rightarrow> project_row list \<Rightarrow> bool" where
  "usage_inv usage seen =
     (distinct (map fst usage)
      \<and> (\<forall>t. case map_of usage t of
                None \<Rightarrow> [r \<leftarrow> seen. p_tenant_id r = t] = []
              | Some tu \<Rightarrow> tenant_ok tu (map p_rate [r \<leftarrow> seen. p_tenant_id r = t])))"

text \<open>
  An entry is held by a value of an instance's dictionary; the group of a row of the
  instance query is filed in the returned mapping; and the invariant of the loop of
  \<^verbatim>\<open>get_instance_usage\<close>: every instance's dictionary carries its own id.
\<close>

definition holds :: "instance_value \<Rightarrow> entry \<Rightarrow> bool" where
  "holds v en =
     (case v of Entries es \<Rightarrow> en \<in> set es | Names ns \<Rightarrow> Appended en \<in> set ns | Ident _ \<Rightarrow> False)"

definition filed :: "(string \<times> tenant_instances) list \<Rightarrow> instance_row \<Rightarrow> bool" where
  "filed usage r =
     (\<exists>tu iu v. map_of usage (i_tenant_id r) = Some tu \<and> map_of tu (i_instance_id r) = Some iu
        \<and> map_of iu ''instance_id'' = Some (Ident (i_instance_id r))
        \<and> map_of iu (i_res_type r) = Some v
        \<and> holds v \<lparr>entry_qty = i_qty r, entry_unit = i_unit r, entry_rate = i_rate r\<rparr>)"

definition ids_ok :: "(string \<times> tenant_instances) list \<Rightarrow> bool" where
  "ids_ok usage =
     (\<forall>t tu iid iu. map_of usage t = Some tu \<longrightarrow> map_of tu iid = Some iu
        \<longrightarrow> map_of iu ''instance_id'' = Some (Ident iid))"

subsection \<open>Auxiliary facts\<close>

text \<open>The exponent of the leading digit, and the rounding to the nearest integer.\<close>

lemma digits_pos: "1 \<le> digits n"
proof (induction n rule: digits.induct)
  case (1 n)
  then show ?case by (cases "n < 10") (simp_all add: digits.simps [of n])
qed

lemma digits_bounds: "0 < n \<Longrightarrow> 10 powi (digits n - 1) \<le> (of_int n :: rat) \<and> (of_int n :: rat) < 10 powi digits n"
proof (induction n rule: digits.induct)
  case (1 n)
  show ?case
  proof (cases "n < 10")
    case True
    then have "digits n = 1" by (simp add: digits.simps [of n])
    with True 1(2) show ?thesis by simp
  next
    case False
    then have pos: "0 < n div 10" by simp
    from 1(1) [OF False pos]
    have ih1: "10 powi (digits (n div 10) - 1) \<le> (of_int (n div 10) :: rat)"
      and ih2: "(of_int (n div 10) :: rat) < 10 powi digits (n div 10)"
      by simp_all
    have d: "digits n = 1 + digits (n div 10)" using False by (simp add: digits.simps [of n])
    have p: "(10::rat) powi (1 + k) = 10 * 10 powi k" for k
      by (simp add: power_int_add)
    have "(10::rat) powi (digits n - 1) = 10 powi (1 + (digits (n div 10) - 1))"
      using d by simp
    also have "\<dots> = 10 * 10 powi (digits (n div 10) - 1)" by (rule p)
    also have "\<dots> \<le> 10 * of_int (n div 10)" using ih1 by simp
    also have "\<dots> = of_int (10 * (n div 10))" by simp
    also have "\<dots> \<le> of_int n" by (subst of_int_le_iff) presburger
    finally have lo: "10 powi (digits n - 1) \<le> (of_int n :: rat)" .
    from ih2 have "of_int (n div 10) + 1 \<le> (10::rat) powi digits (n div 10)"
    proof -
      have "0 \<le> digits (n div 10)" using digits_pos [of "n div 10"] by simp
      then have e: "(10::rat) powi digits (n div 10) = of_int (10 ^ nat (digits (n div 10)))"
        by (simp add: power_int_def)
      from ih2 have "n div 10 < 10 ^ nat (digits (n div 10))"
        unfolding e by (simp only: of_int_less_iff)
      then have "n div 10 + 1 \<le> 10 ^ nat (digits (n div 10))" by simp
      then have "(of_int (n div 10 + 1) :: rat) \<le> of_int (10 ^ nat (digits (n div 10)))"
        by (simp only: of_int_le_iff)
      then show ?thesis unfolding e by simp
    qed
    then have "10 * (of_int (n div 10) + 1) \<le> (10::rat) * 10 powi digits (n div 10)" by simp
    moreover have "(of_int n :: rat) < of_int (10 * (n div 10 + 1))"
      by (subst of_int_less_iff) presburger
    ultimately have "(of_int n :: rat) < 10 * 10 powi digits (n div 10)" by simp
    then have "(of_int n :: rat) < 10 powi digits n" using d p by simp
    with lo show ?thesis by simp
  qed
qed

lemma adjusted_bounds:
  assumes "x \<noteq> 0"
  shows "10 powi adjusted x \<le> \<bar>x\<bar> \<and> \<bar>x\<bar> < 10 powi (adjusted x + 1)"
proof -
  obtain p q where pq: "quotient_of \<bar>x\<bar> = (p, q)" by (cases "quotient_of \<bar>x\<bar>")
  then have q: "0 < q" by (rule quotient_of_denom_pos)
  have x: "\<bar>x\<bar> = of_int p / of_int q" using pq by (rule quotient_of_div)
  have "0 < \<bar>x\<bar>" using assms by simp
  then have p: "0 < p" using x q by (simp add: zero_less_divide_iff)
  let ?d = "digits p - digits q"
  from digits_bounds [OF p] digits_bounds [OF q]
  have bp: "10 powi (digits p - 1) \<le> (of_int p :: rat)" "(of_int p :: rat) < 10 powi digits p"
    and bq: "10 powi (digits q - 1) \<le> (of_int q :: rat)" "(of_int q :: rat) < 10 powi digits q"
    by simp_all
  have qpos: "(0::rat) < of_int q" using q by simp
  have lo: "10 powi (?d - 1) \<le> \<bar>x\<bar>"
  proof -
    have "(10::rat) powi (?d - 1) * of_int q \<le> 10 powi (?d - 1) * 10 powi digits q"
      using bq(2) by (intro mult_left_mono) simp_all
    also have "\<dots> = 10 powi (digits p - 1)"
      by (simp add: power_int_add [symmetric])
    also have "\<dots> \<le> of_int p" by (rule bp(1))
    finally show ?thesis unfolding x using qpos by (simp add: pos_le_divide_eq)
  qed
  have hi: "\<bar>x\<bar> < 10 powi (?d + 1)"
  proof -
    have "(of_int p :: rat) < 10 powi digits p" by (rule bp(2))
    also have "\<dots> = 10 powi (?d + 1) * 10 powi (digits q - 1)"
      by (simp add: power_int_add [symmetric])
    also have "\<dots> \<le> 10 powi (?d + 1) * of_int q"
      using bq(1) by (intro mult_left_mono) simp_all
    finally show ?thesis unfolding x using qpos by (simp add: pos_divide_less_eq)
  qed
  show ?thesis
  proof (cases "10 powi ?d \<le> \<bar>x\<bar>")
    case True
    then have "adjusted x = ?d" by (simp add: adjusted_def pq)
    with True hi show ?thesis by simp
  next
    case False
    then have "adjusted x = ?d - 1" by (simp add: adjusted_def pq)
    with False lo show ?thesis by simp
  qed
qed

lemma round_half_even_near: "\<bar>of_int (round_half_even x) - x\<bar> \<le> 1 / 2"
proof -
  have a: "of_int \<lfloor>x\<rfloor> \<le> x" and b: "x < of_int \<lfloor>x\<rfloor> + 1"
    by linarith+
  have c: "\<bar>of_int \<lfloor>x\<rfloor> - x\<bar> \<le> 1 / 2" if "x - of_int \<lfloor>x\<rfloor> \<le> 1 / 2"
    using that a by linarith
  have d: "\<bar>of_int (\<lfloor>x\<rfloor> + 1) - x\<bar> \<le> 1 / 2" if "1 / 2 \<le> x - of_int \<lfloor>x\<rfloor>"
    using that b unfolding of_int_add of_int_1 by linarith
  have "(round_half_even x = \<lfloor>x\<rfloor> \<and> x - of_int \<lfloor>x\<rfloor> \<le> 1 / 2)
      \<or> (round_half_even x = \<lfloor>x\<rfloor> + 1 \<and> 1 / 2 \<le> x - of_int \<lfloor>x\<rfloor>)"
    by (auto simp: round_half_even_def Let_def)
  then show ?thesis
    using c d by metis
qed

text \<open>The rounded value lies within half a unit of the 28th digit.\<close>

lemma context_round_near:
  "\<bar>context_round x - x\<bar> \<le> 10 powi (adjusted x - 27) / 2"
proof (cases "x = 0")
  case True
  then show ?thesis by (simp add: context_round_def)
next
  case False
  let ?q = "(10::rat) powi (adjusted x - 27)"
  have q: "0 < ?q" by simp
  have "context_round x - x = (of_int (round_half_even (x / ?q)) - x / ?q) * ?q"
    using False q by (simp add: context_round_def Let_def algebra_simps)
  then have "\<bar>context_round x - x\<bar> = \<bar>of_int (round_half_even (x / ?q)) - x / ?q\<bar> * ?q"
    using q by (simp add: abs_mult)
  also have "\<dots> \<le> (1 / 2) * ?q"
    using round_half_even_near [of "x / ?q"] q by (intro mult_right_mono) simp_all
  finally show ?thesis by simp
qed

lemma filter_eq_wanted: "filter_eq col v q = filter (\<lambda>f. wanted v (col f)) q"
  by (cases v) (auto simp: filter_eq_def wanted_def)

lemma filter_num_wanted: "filter_num col v q = filter (\<lambda>f. wanted_num v (col f)) q"
  by (cases v) (auto simp: filter_num_def wanted_num_def)

lemma foldl_exact_sums:
  "exact_sums a xs \<Longrightarrow> foldl decimal_add a xs = a + sum_list xs"
  by (induction xs arbitrary: a) (simp_all add: decimal_add_def add.assoc)

lemma foldl_total_in:
  "total_in (foldl bandwidth_total_step tot rs) =
     foldl decimal_add (total_in tot) (map network_bw_in rs)"
  by (induction rs arbitrary: tot) (simp_all add: bandwidth_total_step_def)

lemma foldl_total_out:
  "total_out (foldl bandwidth_total_step tot rs) =
     foldl decimal_add (total_out tot) (map network_bw_out rs)"
  by (induction rs arbitrary: tot) (simp_all add: bandwidth_total_step_def)

lemma foldl_total_unit:
  "rs \<noteq> [] \<Longrightarrow> total_unit (foldl bandwidth_total_step tot rs) = Some (bw_unit (last rs))"
  by (induction rs arbitrary: tot) (auto simp: bandwidth_total_step_def)

lemma group_by_Nil_iff: "group_by key q = [] \<longleftrightarrow> q = []"
  by (simp add: group_by_def)

lemma bandwidth_query_Nil_iff:
  "bandwidth_query u table b e tenant service = [] \<longleftrightarrow>
     [f \<leftarrow> table. wanted tenant (tenant_id f) \<and> wanted service (res_type f)
        \<and> col_ge (frame_begin f) (boundary b (get_month_start u))
        \<and> col_le (frame_end f) (boundary e (get_next_month u))
        \<and> res_type f \<in> {''network.bw.in'', ''network.bw.out''}] = []"
  unfolding bandwidth_query_def Let_def
  by (simp add: group_by_Nil_iff filter_eq_wanted conj_ac)

lemma inside_iff:
  "(col_ge (frame_begin f) ws \<and> col_le (frame_end f) we) =
   (\<exists>x y. frame_begin f = Some x \<and> frame_end f = Some y \<and> ws \<le> x \<and> y \<le> we)"
  by (auto simp: col_ge_def col_le_def split: option.splits)

lemma get_total_window:
  "get_total u [f \<leftarrow> table. col_ge (frame_begin f) (boundary b (get_month_start u))
        \<and> col_le (frame_end f) (boundary e (get_next_month u))] b e tenant service
   = get_total u table b e tenant service"
  by (simp add: get_total_def Let_def filter_eq_wanted conj_ac cong: filter_cong)

lemma get_tenants_window:
  "get_tenants u [f \<leftarrow> table. col_ge (frame_begin f) (boundary b (get_month_start u))
        \<and> col_le (frame_end f) (boundary e (get_next_month u))] b e
   = get_tenants u table b e"
  by (simp add: get_tenants_def Let_def conj_ac cong: filter_cong)

lemma project_query_window:
  "project_usage_query u [f \<leftarrow> table. col_ge (frame_begin f) (boundary b (get_month_start u))
        \<and> col_le (frame_end f) (boundary e (get_next_month u))] b e tenant service
   = project_usage_query u table b e tenant service"
  by (simp add: project_usage_query_def Let_def filter_eq_wanted conj_ac cong: filter_cong)

lemma instance_query_window:
  "instance_usage_query u [f \<leftarrow> table. col_ge (frame_begin f) (boundary b (get_month_start u))
        \<and> col_le (frame_end f) (boundary e (get_next_month u))] b e tenant service
   = instance_usage_query u table b e tenant service"
  by (simp add: instance_usage_query_def Let_def filter_eq_wanted conj_ac cong: filter_cong)

lemma bandwidth_query_window:
  "bandwidth_query u [f \<leftarrow> table. col_ge (frame_begin f) (boundary b (get_month_start u))
        \<and> col_le (frame_end f) (boundary e (get_next_month u))] b e tenant service
   = bandwidth_query u table b e tenant service"
  by (simp add: bandwidth_query_def Let_def filter_eq_wanted conj_ac cong: filter_cong)

lemma time_frame_window:
  "get_time_frame u to_ck [f \<leftarrow> table. col_ge (frame_begin f) (ts2dt u b)
        \<and> col_le (frame_end f) (ts2dt u e)] b e fl
   = get_time_frame u to_ck table b e fl"
  by (simp add: get_time_frame_def Let_def filter_eq_wanted filter_num_wanted conj_ac cong: filter_cong)

lemma project_query_real:
  "project_usage_query u [f \<leftarrow> table. res_type f \<noteq> ''_NO_DATA_''] b e tenant service
   = project_usage_query u table b e tenant service"
  by (simp add: project_usage_query_def Let_def filter_eq_wanted conj_ac cong: filter_cong)

lemma instance_query_real:
  "instance_usage_query u [f \<leftarrow> table. res_type f \<noteq> ''_NO_DATA_''] b e tenant service
   = instance_usage_query u table b e tenant service"
  by (simp add: instance_usage_query_def Let_def filter_eq_wanted conj_ac cong: filter_cong)

lemma bandwidth_query_real:
  "bandwidth_query u [f \<leftarrow> table. res_type f \<noteq> ''_NO_DATA_''] b e tenant service
   = bandwidth_query u table b e tenant service"
  by (auto simp add: bandwidth_query_def Let_def filter_eq_wanted conj_ac intro!: arg_cong[where f="group_by _"] arg_cong2[where f=map] filter_cong)

lemma sql_sum_eq: "sql_sum xs = (if xs = [] then None else Some (sum_list xs))"
  by (cases xs) simp_all

lemma sum_rate_filter:
  "\<forall>f\<in>set q. \<not> P f \<longrightarrow> rate f = 0 \<Longrightarrow> sum_list (map rate (filter P q)) = sum_list (map rate q)"
  by (induction q) auto

lemma get_total_sentinel_cases:
  assumes "\<forall>f\<in>set table. res_type f = ''_NO_DATA_'' \<longrightarrow> rate f = 0"
  shows "(let matching = [f \<leftarrow> table. wanted tenant (tenant_id f) \<and> wanted service (res_type f)
              \<and> col_ge (frame_begin f) (boundary b (get_month_start u))
              \<and> col_le (frame_end f) (boundary e (get_next_month u))]
          in if matching \<noteq> [] \<and> [f \<leftarrow> matching. res_type f \<noteq> ''_NO_DATA_''] = []
             then get_total u table b e tenant service = Some 0
                \<and> get_total u [f \<leftarrow> table. res_type f \<noteq> ''_NO_DATA_''] b e tenant service = None
             else get_total u table b e tenant service =
                  get_total u [f \<leftarrow> table. res_type f \<noteq> ''_NO_DATA_''] b e tenant service)"
proof -
  let ?q = "[f \<leftarrow> table. wanted tenant (tenant_id f) \<and> wanted service (res_type f)
     \<and> col_ge (frame_begin f) (boundary b (get_month_start u))
     \<and> col_le (frame_end f) (boundary e (get_next_month u))]"
  let ?r = "filter (\<lambda>f. res_type f \<noteq> ''_NO_DATA_'') ?q"
  have a: "get_total u table b e tenant service = sql_sum (map rate ?q)"
    by (simp add: get_total_def Let_def filter_eq_wanted conj_ac)
  have b: "get_total u [f \<leftarrow> table. res_type f \<noteq> ''_NO_DATA_''] b e tenant service
      = sql_sum (map rate ?r)"
    by (simp add: get_total_def Let_def filter_eq_wanted conj_ac cong: filter_cong)
  have s: "sum_list (map rate ?r) = sum_list (map rate ?q)"
    by (rule sum_rate_filter) (use assms in auto)
  show ?thesis
  proof (cases "?r = []")
    case True
    then have "sum_list (map rate ?q) = 0" using s by simp
    with True show ?thesis unfolding Let_def a b sql_sum_eq by simp
  next
    case False
    then have "?q \<noteq> []" by (metis filter.simps(1))
    with False s show ?thesis unfolding Let_def a b sql_sum_eq by simp
  qed
qed

lemma time_frame_exact:
  "get_time_frame u to_cloudkitty table b e fl =
     (if [f \<leftarrow> table. col_ge (frame_begin f) (ts2dt u b) \<and> col_le (frame_end f) (ts2dt u e)
            \<and> wanted (by_tenant_id fl) (tenant_id f) \<and> wanted (by_res_type fl) (res_type f)
            \<and> wanted (by_unit fl) (unit f) \<and> wanted_num (by_qty fl) (qty f)
            \<and> wanted_num (by_rate fl) (rate f)
            \<and> (truthy (by_res_type fl) \<or> res_type f \<noteq> ''_NO_DATA_'')] = []
      then Inl NoTimeFrame
      else Inr (map to_cloudkitty
         [f \<leftarrow> table. col_ge (frame_begin f) (ts2dt u b) \<and> col_le (frame_end f) (ts2dt u e)
            \<and> wanted (by_tenant_id fl) (tenant_id f) \<and> wanted (by_res_type fl) (res_type f)
            \<and> wanted (by_unit fl) (unit f) \<and> wanted_num (by_qty fl) (qty f)
            \<and> wanted_num (by_rate fl) (rate f)
            \<and> (truthy (by_res_type fl) \<or> res_type f \<noteq> ''_NO_DATA_'')]))"
  by (cases "truthy (by_res_type fl)")
     (simp_all add: get_time_frame_def Let_def filter_eq_wanted filter_num_wanted conj_ac)

subsection \<open>Totals of the bandwidth pivot\<close>

text \<open>
  C7, as amended. In every result of \<^verbatim>\<open>get_bandwidth_hourly_usage\<close>, the total
  under \<^verbatim>\<open>"network.bw.in"\<close> is that column of \<^verbatim>\<open>data\<close> added up from 0 in the
  order of the rows, each addition rounded to the 28 significant digits of the
  decimal context; it is the exact sum of the column when no addition is rounded.
  The same holds of \<^verbatim>\<open>"network.bw.out"\<close>.
\<close>

theorem bandwidth_total_is_rounded_column_sum:
  "(let r = get_bandwidth_hourly_usage u table b e tenant service;
        col_in = map network_bw_in (data r);
        col_out = map network_bw_out (data r)
    in total_in (total r) = foldl decimal_add 0 col_in
     \<and> total_out (total r) = foldl decimal_add 0 col_out
     \<and> (exact_sums 0 col_in \<longrightarrow> total_in (total r) = sum_list col_in)
     \<and> (exact_sums 0 col_out \<longrightarrow> total_out (total r) = sum_list col_out))"
  by (simp add: Let_def get_bandwidth_hourly_usage_def bandwidth_usage_of_def foldl_total_in
      foldl_total_out foldl_exact_sums)

theorem bandwidth_total_is_rounded_column_sum_witness:
  "total_in (total (get_bandwidth_hourly_usage sample_utils
      [row ''A'' ''network.bw.in'' ''MB'' (5 / 2) 0 [] 0 10,
       row ''A'' ''network.bw.in'' ''GB'' 7 0 [] 0 10,
       row ''A'' ''network.bw.out'' ''GB'' 4 0 [] 0 10] None None None None)) = 19 / 2
   \<and> total_out (total (get_bandwidth_hourly_usage sample_utils
      [row ''A'' ''network.bw.in'' ''MB'' (5 / 2) 0 [] 0 10,
       row ''A'' ''network.bw.in'' ''GB'' 7 0 [] 0 10,
       row ''A'' ''network.bw.out'' ''GB'' 4 0 [] 0 10] None None None None)) = 4"
proof -
  let ?r = "get_bandwidth_hourly_usage sample_utils
      [row ''A'' ''network.bw.in'' ''MB'' (5 / 2) 0 [] 0 10,
       row ''A'' ''network.bw.in'' ''GB'' 7 0 [] 0 10,
       row ''A'' ''network.bw.out'' ''GB'' 4 0 [] 0 10] None None None None"
  have c1: "map network_bw_in (data ?r) = [5 / 2, 7]"
    and c2: "map network_bw_out (data ?r) = [0, 4]"
    by code_simp+
  have e1: "exact_sums 0 (map network_bw_in (data ?r))"
    and e2: "exact_sums 0 (map network_bw_out (data ?r))"
    unfolding c1 c2 by code_simp+
  from bandwidth_total_is_rounded_column_sum [of sample_utils _ None None None None,
      unfolded Let_def] e1 e2
  have "total_in (total ?r) = sum_list (map network_bw_in (data ?r))"
    and "total_out (total ?r) = sum_list (map network_bw_out (data ?r))"
    by blast+
  then show ?thesis unfolding c1 c2 by simp
qed

text \<open>
  A quantity of 38 digits in the one row of \<^verbatim>\<open>data\<close>: the total is rounded to 28
  digits and is not the sum of the column, against C7 as it is stated.
\<close>

theorem bandwidth_total_rounds:
  "total_in (total (get_bandwidth_hourly_usage sample_utils
      [row ''A'' ''network.bw.in'' ''MB'' (12345678901234567890123456789012345678 / 10 ^ 18)
         0 [] 0 10] None None None None))
     = 1234567890123456789012345679 / 10 ^ 8
   \<and> sum_list (map network_bw_in (data (get_bandwidth_hourly_usage sample_utils
      [row ''A'' ''network.bw.in'' ''MB'' (12345678901234567890123456789012345678 / 10 ^ 18)
         0 [] 0 10] None None None None)))
     = 12345678901234567890123456789012345678 / 10 ^ 18
   \<and> (1234567890123456789012345679 / 10 ^ 8 :: rat)
       \<noteq> 12345678901234567890123456789012345678 / 10 ^ 18"
  by code_simp

text \<open>
  C10. When no row matches the filters, the window and the two bandwidth types,
  \<^verbatim>\<open>data\<close> is empty and the total holds the two sums, both 0, and no unit; when a
  row matches, \<^verbatim>\<open>data\<close> is not empty and the unit of the total is the unit of its
  last row, whatever the units of the rows before.
\<close>

theorem bandwidth_total_unit:
  "(let r = get_bandwidth_hourly_usage u table b e tenant service;
        matching = [f \<leftarrow> table. wanted tenant (tenant_id f) \<and> wanted service (res_type f)
          \<and> col_ge (frame_begin f) (boundary b (get_month_start u))
          \<and> col_le (frame_end f) (boundary e (get_next_month u))
          \<and> res_type f \<in> {''network.bw.in'', ''network.bw.out''}]
    in if matching = []
       then data r = [] \<and> total r = \<lparr>total_in = 0, total_out = 0, total_unit = None\<rparr>
       else data r \<noteq> [] \<and> total_unit (total r) = Some (bw_unit (last (data r))))"
proof -
  let ?r = "get_bandwidth_hourly_usage u table b e tenant service"
  have d: "data ?r = bandwidth_query u table b e tenant service"
    by (simp add: get_bandwidth_hourly_usage_def bandwidth_usage_of_def)
  have t: "total ?r =
      foldl bandwidth_total_step \<lparr>total_in = 0, total_out = 0, total_unit = None\<rparr> (data ?r)"
    by (simp add: get_bandwidth_hourly_usage_def bandwidth_usage_of_def)
  show ?thesis
  proof (cases "bandwidth_query u table b e tenant service = []")
    case True
    then have "data ?r = []" using d by simp
    with True t show ?thesis
      unfolding Let_def bandwidth_query_Nil_iff [symmetric] by simp
  next
    case False
    then have "data ?r \<noteq> []" using d by simp
    with False show ?thesis
      unfolding Let_def bandwidth_query_Nil_iff [symmetric] t
      by (simp add: foldl_total_unit)
  qed
qed

theorem bandwidth_total_unit_witness:
  "total (get_bandwidth_hourly_usage sample_utils
      [row ''A'' ''compute'' ''hour'' 7 3 [] 0 10] None None None None) =
     \<lparr>total_in = 0, total_out = 0, total_unit = None\<rparr>
   \<and> map bw_unit (data (get_bandwidth_hourly_usage sample_utils
      [row ''A'' ''network.bw.in'' ''MB'' 5 0 [] 0 10,
       row ''A'' ''network.bw.out'' ''GB'' 7 0 [] 0 10] None None None None)) = [''MB'', ''GB'']
   \<and> total_unit (total (get_bandwidth_hourly_usage sample_utils
      [row ''A'' ''network.bw.in'' ''MB'' 5 0 [] 0 10,
       row ''A'' ''network.bw.out'' ''GB'' 7 0 [] 0 10] None None None None)) = Some ''GB''"
  using bandwidth_total_unit [of sample_utils "[row ''A'' ''compute'' ''hour'' 7 3 [] 0 10]"
      None None None None]
    bandwidth_total_unit [of sample_utils
      "[row ''A'' ''network.bw.in'' ''MB'' 5 0 [] 0 10,
        row ''A'' ''network.bw.out'' ''GB'' 7 0 [] 0 10]" None None None None]
  by code_simp

subsection \<open>Tenants of a window\<close>

text \<open>
  C2, as amended. \<^verbatim>\<open>get_tenants\<close> returns, each once, exactly the tenants that have
  a row, sentinel or not, whose begin and end lie inside the window: the query has
  no condition on the resource type.
\<close>

theorem get_tenants_any_frame:
  "distinct (get_tenants u table b e) \<and>
   set (get_tenants u table b e) =
     tenant_id ` {f \<in> set table. \<exists>x y. frame_begin f = Some x \<and> frame_end f = Some y
        \<and> boundary b (get_month_start u) \<le> x \<and> y \<le> boundary e (get_next_month u)}"
  by (auto simp: get_tenants_def Let_def col_ge_def col_le_def split: option.splits)

text \<open>
  A tenant whose only row in the window is a sentinel is returned, against C2 as
  it is stated.
\<close>

theorem get_tenants_sentinel_only:
  "get_tenants sample_utils [sentinel_row ''B'' 0 100] None None = [''B'']
   \<and> [f \<leftarrow> [sentinel_row ''B'' 0 100]. res_type f \<noteq> ''_NO_DATA_''] = []"
  by code_simp

subsection \<open>Listing the rows of a window\<close>

text \<open>
  C3. \<^verbatim>\<open>get_time_frame\<close> raises \<^verbatim>\<open>NoTimeFrame\<close> exactly when no row matches the
  window and the filters, where a sentinel row matches only if a resource type is
  asked for; otherwise it returns every matching row, converted, in the order of
  the table. It never returns the empty list.
\<close>

theorem get_time_frame_rows:
  "get_time_frame u to_cloudkitty table b e fl =
     (if [f \<leftarrow> table. col_ge (frame_begin f) (ts2dt u b) \<and> col_le (frame_end f) (ts2dt u e)
            \<and> wanted (by_tenant_id fl) (tenant_id f) \<and> wanted (by_res_type fl) (res_type f)
            \<and> wanted (by_unit fl) (unit f) \<and> wanted_num (by_qty fl) (qty f)
            \<and> wanted_num (by_rate fl) (rate f)
            \<and> (truthy (by_res_type fl) \<or> res_type f \<noteq> ''_NO_DATA_'')] = []
      then Inl NoTimeFrame
      else Inr (map to_cloudkitty
         [f \<leftarrow> table. col_ge (frame_begin f) (ts2dt u b) \<and> col_le (frame_end f) (ts2dt u e)
            \<and> wanted (by_tenant_id fl) (tenant_id f) \<and> wanted (by_res_type fl) (res_type f)
            \<and> wanted (by_unit fl) (unit f) \<and> wanted_num (by_qty fl) (qty f)
            \<and> wanted_num (by_rate fl) (rate f)
            \<and> (truthy (by_res_type fl) \<or> res_type f \<noteq> ''_NO_DATA_'')]))
   \<and> get_time_frame u to_cloudkitty table b e fl \<noteq> Inr []"
  by (cases "truthy (by_res_type fl)")
     (simp_all add: get_time_frame_def Let_def filter_eq_wanted filter_num_wanted conj_ac)

theorem get_time_frame_rows_witness:
  "get_time_frame sample_utils qty [sentinel_row ''B'' 0 100] 0 100 no_filters = Inl NoTimeFrame
   \<and> get_time_frame sample_utils unit [sentinel_row ''B'' 0 100] 0 100
       (no_filters\<lparr>by_res_type := Some ''_NO_DATA_''\<rparr>) = Inr [''None'']
   \<and> get_time_frame sample_utils qty
       [row ''A'' ''compute'' ''hour'' 10 (5 / 2) [] 0 100, sentinel_row ''B'' 0 100,
        row ''A'' ''image'' ''MB'' 4 0 [] 0 100] 0 100 no_filters = Inr [10, 4]"
  using get_time_frame_rows [of sample_utils qty "[sentinel_row ''B'' 0 100]" 0 100 no_filters]
  by code_simp

subsection \<open>The write path\<close>

text \<open>
  C4, as amended. When the \<^verbatim>\<open>vol\<close> dictionary of a usage record lacks \<^verbatim>\<open>qty\<close> or
  \<^verbatim>\<open>unit\<close>, \<^verbatim>\<open>_append_time_frame\<close> raises the \<^verbatim>\<open>KeyError\<close> of the dictionary
  lookup, for \<^verbatim>\<open>qty\<close> first, and leaves the storage as it was: no row is added.
\<close>

theorem append_missing_field:
  "vol fr = Some v \<Longrightarrow> vol_qty v = None \<or> vol_unit v = None \<Longrightarrow>
   append_time_frame s rtype fr tenant =
     (Some (KeyError (if vol_qty v = None then ''qty'' else ''unit'')), s)"
  by (auto simp: append_time_frame_def split: option.splits)

theorem append_missing_field_witness:
  "append_time_frame (check_session sample_storage ''A'') ''compute''
     (sample_usage (Some 10) None) ''A''
   = (Some (KeyError ''unit''), check_session sample_storage ''A'')"
  using append_missing_field [of "sample_usage (Some 10) None"
      "\<lparr>vol_qty = Some 10, vol_unit = None\<rparr>" "check_session sample_storage ''A''"
      "''compute''" "''A''"]
  by (simp add: sample_usage_def)

text \<open>
  The error raised for a record without \<^verbatim>\<open>qty\<close> is the \<^verbatim>\<open>KeyError\<close> of Python,
  not an error of the storage's own.
\<close>

theorem append_missing_qty_raises_KeyError:
  "append_time_frame (check_session sample_storage ''A'') ''compute''
     (sample_usage None (Some ''hour'')) ''A''
   = (Some (KeyError ''qty''), check_session sample_storage ''A'')"
  by (simp add: append_time_frame_def sample_usage_def)

text \<open>
  C5. When \<^verbatim>\<open>_has_data\<close> has no true entry for the tenant, \<^verbatim>\<open>_pre_commit\<close> adds
  exactly one row to the tenant's transaction, after those it holds: the sentinel
  of type \<^verbatim>\<open>_NO_DATA_\<close> with quantity 0, unit \<^verbatim>\<open>None\<close> and rate 0, stamped with
  the tenant's period. When the entry is true, it adds no row.
\<close>

theorem pre_commit_sentinel:
  "(if (case has_data s tenant of None \<Rightarrow> False | Some h \<Rightarrow> h)
    then pre_commit s tenant = (None, check_session s tenant)
      \<and> session (check_session s tenant) tenant =
          Some (case session s tenant of None \<Rightarrow> [] | Some p \<Rightarrow> p)
    else pre_commit s tenant =
      (None, s\<lparr>session := (session s)(tenant \<mapsto>
         (case session s tenant of None \<Rightarrow> [] | Some p \<Rightarrow> p) @
         [\<lparr>tenant_id = tenant, res_type = ''_NO_DATA_'', unit = ''None'', qty = 0, rate = 0,
           desc = [], frame_begin = usage_start_dt s tenant,
           frame_end = usage_end_dt s tenant\<rparr>])\<rparr>))"
  by (auto simp: pre_commit_def check_session_def append_time_frame_def add_time_frame_def
      empty_frame_def Let_def split: option.splits)

theorem pre_commit_sentinel_witness:
  "session (snd (pre_commit sample_storage ''A'')) ''A'' = Some [sentinel_row ''A'' 0 100]
   \<and> session (snd (pre_commit
        (snd (dispatch sample_storage [(''compute'', [sample_usage (Some 10) (Some ''hour'')])]
           ''A'')) ''A'')) ''A''
      = Some [row ''A'' ''compute'' ''hour'' 10 (5 / 2) [(''instance_id'', Some ''u1'')] 0 100]"
  using pre_commit_sentinel [of sample_storage "''A''"]
    pre_commit_sentinel [of "snd (dispatch sample_storage
      [(''compute'', [sample_usage (Some 10) (Some ''hour'')])] ''A'')" "''A''"]
  by (simp add: sample_storage_def sentinel_row_def row_def dispatch_def check_session_def
      append_time_frame_def add_time_frame_def sample_usage_def)

subsection \<open>Sentinel rows in the aggregations\<close>

text \<open>
  C1, as amended. Let the sentinel rows of the table carry rate 0, as the write
  path stamps them. Under every filter combination, \<^verbatim>\<open>get_project_usage\<close>,
  \<^verbatim>\<open>get_instance_usage\<close> and \<^verbatim>\<open>get_bandwidth_hourly_usage\<close> return what they
  return on the table without its sentinel rows. \<^verbatim>\<open>get_total\<close> has no condition on
  the sentinel type: the sentinel rows add 0 to its sum. When a row that is no
  sentinel matches the filters and the window, and when no row matches, it returns
  what it returns without the sentinel rows; when rows match and all of them are
  sentinels, it returns 0, and no value without them.
\<close>

theorem sentinel_rows_in_aggregations:
  assumes "\<forall>f\<in>set table. res_type f = ''_NO_DATA_'' \<longrightarrow> rate f = 0"
  shows "get_project_usage u table b e tenant service =
           get_project_usage u [f \<leftarrow> table. res_type f \<noteq> ''_NO_DATA_''] b e tenant service
       \<and> get_instance_usage u table b e tenant service =
           get_instance_usage u [f \<leftarrow> table. res_type f \<noteq> ''_NO_DATA_''] b e tenant service
       \<and> get_bandwidth_hourly_usage u table b e tenant service =
           get_bandwidth_hourly_usage u [f \<leftarrow> table. res_type f \<noteq> ''_NO_DATA_''] b e tenant service
       \<and> (let matching = [f \<leftarrow> table. wanted tenant (tenant_id f) \<and> wanted service (res_type f)
              \<and> col_ge (frame_begin f) (boundary b (get_month_start u))
              \<and> col_le (frame_end f) (boundary e (get_next_month u))]
          in if matching \<noteq> [] \<and> [f \<leftarrow> matching. res_type f \<noteq> ''_NO_DATA_''] = []
             then get_total u table b e tenant service = Some 0
                \<and> get_total u [f \<leftarrow> table. res_type f \<noteq> ''_NO_DATA_''] b e tenant service = None
             else get_total u table b e tenant service =
                  get_total u [f \<leftarrow> table. res_type f \<noteq> ''_NO_DATA_''] b e tenant service)"
proof -
  have "get_project_usage u table b e tenant service =
      get_project_usage u [f \<leftarrow> table. res_type f \<noteq> ''_NO_DATA_''] b e tenant service"
    by (simp add: get_project_usage_def project_query_real)
  moreover have "get_instance_usage u table b e tenant service =
      get_instance_usage u [f \<leftarrow> table. res_type f \<noteq> ''_NO_DATA_''] b e tenant service"
    by (simp add: get_instance_usage_def instance_query_real)
  moreover have "get_bandwidth_hourly_usage u table b e tenant service =
      get_bandwidth_hourly_usage u [f \<leftarrow> table. res_type f \<noteq> ''_NO_DATA_''] b e tenant service"
    by (simp add: get_bandwidth_hourly_usage_def bandwidth_query_real)
  ultimately show ?thesis
    using get_total_sentinel_cases [OF assms, of tenant service b u e] by simp
qed

theorem sentinel_rows_in_aggregations_witness:
  "get_total sample_utils
     [row ''A'' ''compute'' ''hour'' 10 (5 / 2) [] 0 100, sentinel_row ''B'' 0 100]
     None None None None = Some (5 / 2)
   \<and> get_project_usage sample_utils
     [row ''A'' ''compute'' ''hour'' 10 (5 / 2) [] 0 100, sentinel_row ''B'' 0 100]
     None None None None =
     Inr [(''A'', [(''total'', TotalRate (5 / 2)),
        (''compute'', Usages [\<lparr>entry_qty = 10, entry_unit = ''hour'', entry_rate = 5 / 2\<rparr>])])]"
proof -
  have h: "\<forall>f\<in>set [row ''A'' ''compute'' ''hour'' 10 (5 / 2) [] 0 100, sentinel_row ''B'' 0 100].
      res_type f = ''_NO_DATA_'' \<longrightarrow> rate f = 0"
    by (simp add: row_def sentinel_row_def)
  show ?thesis
    using sentinel_rows_in_aggregations [OF h, of sample_utils None None None None]
    by code_simp
qed

text \<open>
  For \<^verbatim>\<open>get_total\<close>, a window that holds one sentinel row differs from a window that
  holds no row, against C1 as it is stated.
\<close>

theorem get_total_sentinel_only:
  "get_total sample_utils [sentinel_row ''B'' 0 100] None None None None = Some 0
   \<and> get_total sample_utils [] None None None None = None"
  by code_simp

subsection \<open>The window\<close>

text \<open>
  C8, as amended. Every read query counts the rows of the table whose begin is at
  or after the start of the window and whose end is at or before its end, both
  bounds included, and no other row: each of the six results is computed from
  exactly these rows (the sum of their rates, their tenants, their groups, their
  listing, under the other filters of the query), and is what the query returns on
  the table cut down to them. A row stamped with the period from \<open>x\<close> to \<open>y\<close> is counted in
  the window from \<open>x\<close> to \<open>y\<close>; in the next window, from \<open>y\<close> to \<open>z\<close>, it is
  counted only when its begin is not before \<open>y\<close>, which a row with \<open>x < y\<close> is not.
\<close>

theorem window_bounds_inclusive:
  "(let ws = boundary b (get_month_start u); we = boundary e (get_next_month u);
        inside = [f \<leftarrow> table. \<exists>x y. frame_begin f = Some x \<and> frame_end f = Some y
                     \<and> ws \<le> x \<and> y \<le> we];
        inside' = [f \<leftarrow> table. \<exists>x y. frame_begin f = Some x \<and> frame_end f = Some y
                     \<and> ts2dt u tb \<le> x \<and> y \<le> ts2dt u te];
        listed = [f \<leftarrow> inside'. wanted (by_tenant_id fl) (tenant_id f)
                     \<and> wanted (by_res_type fl) (res_type f) \<and> wanted (by_unit fl) (unit f)
                     \<and> wanted_num (by_qty fl) (qty f) \<and> wanted_num (by_rate fl) (rate f)
                     \<and> (truthy (by_res_type fl) \<or> res_type f \<noteq> ''_NO_DATA_'')]
    in get_total u table b e tenant service =
         sql_sum (map rate [f \<leftarrow> inside. wanted tenant (tenant_id f) \<and> wanted service (res_type f)])
     \<and> get_tenants u table b e = remdups (map tenant_id inside)
     \<and> get_project_usage u table b e tenant service =
         project_usage_loop []
           (map (\<lambda>((t, rt, un), g).
                \<lparr>p_tenant_id = t, p_res_type = rt,
                 p_instance_id = remdups (map instance_id_case g),
                 p_instance_name = remdups (map instance_name_case g),
                 p_unit = un, p_qty = sum_list (map qty g), p_rate = sum_list (map rate g)\<rparr>)
             (group_by (\<lambda>f. (tenant_id f, res_type f, unit f))
                [f \<leftarrow> inside. wanted tenant (tenant_id f) \<and> wanted service (res_type f)
                   \<and> res_type f \<noteq> ''_NO_DATA_'']))
     \<and> get_instance_usage u table b e tenant service =
         instance_usage_loop []
           (map (\<lambda>((t, rt, un, iid), g).
                \<lparr>i_tenant_id = t, i_res_type = rt, i_unit = un, i_instance_id = iid,
                 i_instance_name = remdups (map instance_name_case g),
                 i_qty = sum_list (map qty g), i_rate = sum_list (map rate g)\<rparr>)
             (group_by (\<lambda>f. (tenant_id f, res_type f, unit f, instance_id_case f))
                [f \<leftarrow> inside. wanted tenant (tenant_id f) \<and> wanted service (res_type f)
                   \<and> res_type f \<noteq> ''_NO_DATA_'']))
     \<and> get_bandwidth_hourly_usage u table b e tenant service =
         bandwidth_usage_of
           (map (\<lambda>((gb, ge, t, un), g).
                \<lparr>bw_begin = gb, bw_end = ge, bw_tenant_id = t, bw_unit = un,
                 network_bw_in =
                   sum_list (map (\<lambda>f. if res_type f = ''network.bw.in'' then qty f else 0) g),
                 network_bw_out =
                   sum_list (map (\<lambda>f. if res_type f = ''network.bw.out'' then qty f else 0) g)\<rparr>)
             (group_by (\<lambda>f. (frame_begin f, frame_end f, tenant_id f, unit f))
                [f \<leftarrow> inside. wanted tenant (tenant_id f) \<and> wanted service (res_type f)
                   \<and> (res_type f = ''network.bw.in'' \<or> res_type f = ''network.bw.out'')]))
     \<and> get_time_frame u to_cloudkitty table tb te fl =
         (if listed = [] then Inl NoTimeFrame else Inr (map to_cloudkitty listed))
     \<and> get_total u table b e tenant service = get_total u inside b e tenant service
     \<and> get_tenants u table b e = get_tenants u inside b e
     \<and> get_project_usage u table b e tenant service = get_project_usage u inside b e tenant service
     \<and> get_instance_usage u table b e tenant service = get_instance_usage u inside b e tenant service
     \<and> get_bandwidth_hourly_usage u table b e tenant service =
         get_bandwidth_hourly_usage u inside b e tenant service
     \<and> get_time_frame u to_cloudkitty table tb te fl = get_time_frame u to_cloudkitty inside' tb te fl
     \<and> set (get_tenants u table b e) = set (map tenant_id inside))
   \<and> get_tenants u [row t rt un q r d x y] (Some x) (Some y) = [t]
   \<and> get_tenants u [row t rt un q r d x y] (Some y) (Some z) = (if y \<le> x \<and> y \<le> z then [t] else [])"
proof -
  have adj: "get_tenants u [row t rt un q r d x y] (Some x) (Some y) = [t]
     \<and> get_tenants u [row t rt un q r d x y] (Some y) (Some z) = (if y \<le> x \<and> y \<le> z then [t] else [])"
    by (simp add: get_tenants_def row_def boundary_def col_ge_def col_le_def)
  have tenants: "get_tenants u table b e =
      remdups (map tenant_id [f \<leftarrow> table. col_ge (frame_begin f) (boundary b (get_month_start u))
        \<and> col_le (frame_end f) (boundary e (get_next_month u))])"
    by (simp add: get_tenants_def Let_def)
  have total: "get_total u table b e tenant service =
      sql_sum (map rate [f \<leftarrow> [f \<leftarrow> table. col_ge (frame_begin f) (boundary b (get_month_start u))
        \<and> col_le (frame_end f) (boundary e (get_next_month u))].
          wanted tenant (tenant_id f) \<and> wanted service (res_type f)])"
    by (simp add: get_total_def Let_def filter_eq_wanted conj_ac)
  have project: "project_usage_query u table b e tenant service =
      map (\<lambda>((t, rt, un), g).
                \<lparr>p_tenant_id = t, p_res_type = rt,
                 p_instance_id = remdups (map instance_id_case g),
                 p_instance_name = remdups (map instance_name_case g),
                 p_unit = un, p_qty = sum_list (map qty g), p_rate = sum_list (map rate g)\<rparr>)
             (group_by (\<lambda>f. (tenant_id f, res_type f, unit f))
                [f \<leftarrow> [f \<leftarrow> table. col_ge (frame_begin f) (boundary b (get_month_start u))
                     \<and> col_le (frame_end f) (boundary e (get_next_month u))].
                   wanted tenant (tenant_id f) \<and> wanted service (res_type f)
                   \<and> res_type f \<noteq> ''_NO_DATA_''])"
    by (simp add: project_usage_query_def Let_def filter_eq_wanted conj_ac)
  have "instance": "instance_usage_query u table b e tenant service =
      map (\<lambda>((t, rt, un, iid), g).
                \<lparr>i_tenant_id = t, i_res_type = rt, i_unit = un, i_instance_id = iid,
                 i_instance_name = remdups (map instance_name_case g),
                 i_qty = sum_list (map qty g), i_rate = sum_list (map rate g)\<rparr>)
             (group_by (\<lambda>f. (tenant_id f, res_type f, unit f, instance_id_case f))
                [f \<leftarrow> [f \<leftarrow> table. col_ge (frame_begin f) (boundary b (get_month_start u))
                     \<and> col_le (frame_end f) (boundary e (get_next_month u))].
                   wanted tenant (tenant_id f) \<and> wanted service (res_type f)
                   \<and> res_type f \<noteq> ''_NO_DATA_''])"
    by (simp add: instance_usage_query_def Let_def filter_eq_wanted conj_ac)
  have bandwidth: "bandwidth_query u table b e tenant service =
      map (\<lambda>((gb, ge, t, un), g).
                \<lparr>bw_begin = gb, bw_end = ge, bw_tenant_id = t, bw_unit = un,
                 network_bw_in =
                   sum_list (map (\<lambda>f. if res_type f = ''network.bw.in'' then qty f else 0) g),
                 network_bw_out =
                   sum_list (map (\<lambda>f. if res_type f = ''network.bw.out'' then qty f else 0) g)\<rparr>)
             (group_by (\<lambda>f. (frame_begin f, frame_end f, tenant_id f, unit f))
                [f \<leftarrow> [f \<leftarrow> table. col_ge (frame_begin f) (boundary b (get_month_start u))
                     \<and> col_le (frame_end f) (boundary e (get_next_month u))].
                   wanted tenant (tenant_id f) \<and> wanted service (res_type f)
                   \<and> (res_type f = ''network.bw.in'' \<or> res_type f = ''network.bw.out'')])"
    by (simp add: bandwidth_query_def Let_def filter_eq_wanted conj_ac)
  have frames: "get_time_frame u to_cloudkitty table tb te fl =
      (if [f \<leftarrow> [f \<leftarrow> table. col_ge (frame_begin f) (ts2dt u tb)
                  \<and> col_le (frame_end f) (ts2dt u te)].
              wanted (by_tenant_id fl) (tenant_id f)
                     \<and> wanted (by_res_type fl) (res_type f) \<and> wanted (by_unit fl) (unit f)
                     \<and> wanted_num (by_qty fl) (qty f) \<and> wanted_num (by_rate fl) (rate f)
                     \<and> (truthy (by_res_type fl) \<or> res_type f \<noteq> ''_NO_DATA_'')] = []
       then Inl NoTimeFrame
       else Inr (map to_cloudkitty [f \<leftarrow> [f \<leftarrow> table. col_ge (frame_begin f) (ts2dt u tb)
                  \<and> col_le (frame_end f) (ts2dt u te)].
              wanted (by_tenant_id fl) (tenant_id f)
                     \<and> wanted (by_res_type fl) (res_type f) \<and> wanted (by_unit fl) (unit f)
                     \<and> wanted_num (by_qty fl) (qty f) \<and> wanted_num (by_rate fl) (rate f)
                     \<and> (truthy (by_res_type fl) \<or> res_type f \<noteq> ''_NO_DATA_'')]))"
    unfolding time_frame_exact by (simp add: conj_ac)
  have same: "get_total u table b e tenant service =
        get_total u [f \<leftarrow> table. col_ge (frame_begin f) (boundary b (get_month_start u))
        \<and> col_le (frame_end f) (boundary e (get_next_month u))] b e tenant service"
    "get_tenants u table b e = get_tenants u [f \<leftarrow> table. col_ge (frame_begin f) (boundary b (get_month_start u))
        \<and> col_le (frame_end f) (boundary e (get_next_month u))] b e"
    "get_project_usage u table b e tenant service = get_project_usage u [f \<leftarrow> table. col_ge (frame_begin f) (boundary b (get_month_start u))
        \<and> col_le (frame_end f) (boundary e (get_next_month u))] b e tenant service"
    "get_instance_usage u table b e tenant service = get_instance_usage u [f \<leftarrow> table. col_ge (frame_begin f) (boundary b (get_month_start u))
        \<and> col_le (frame_end f) (boundary e (get_next_month u))] b e tenant service"
    "get_bandwidth_hourly_usage u table b e tenant service =
         get_bandwidth_hourly_usage u [f \<leftarrow> table. col_ge (frame_begin f) (boundary b (get_month_start u))
        \<and> col_le (frame_end f) (boundary e (get_next_month u))] b e tenant service"
    "get_time_frame u to_cloudkitty table tb te fl = get_time_frame u to_cloudkitty [f \<leftarrow> table. col_ge (frame_begin f) (ts2dt u tb)
                  \<and> col_le (frame_end f) (ts2dt u te)] tb te fl"
    by (simp_all add: get_total_window get_tenants_window get_project_usage_def project_query_window
        get_instance_usage_def instance_query_window get_bandwidth_hourly_usage_def
        bandwidth_query_window time_frame_window)
  have exact: "get_project_usage u table b e tenant service =
         project_usage_loop [] (project_usage_query u table b e tenant service)"
    "get_instance_usage u table b e tenant service =
         instance_usage_loop [] (instance_usage_query u table b e tenant service)"
    "get_bandwidth_hourly_usage u table b e tenant service =
         bandwidth_usage_of (bandwidth_query u table b e tenant service)"
    by (simp_all add: get_project_usage_def get_instance_usage_def get_bandwidth_hourly_usage_def)
  show ?thesis
    unfolding Let_def inside_iff [symmetric]
    apply (intro conjI)
    apply (rule total)
    apply (rule tenants)
    apply (simp only: exact project)
    apply (simp only: exact "instance")
    apply (simp only: exact bandwidth)
    apply (rule frames)
    apply (rule same)+
    apply (simp add: tenants)
    apply (simp_all add: adj)
    done
qed

text \<open>
  A row whose end is the begin of the next window is counted in its own window and
  not in the next one, against C8 as it is stated.
\<close>

theorem adjacent_window_excludes_row:
  "get_tenants sample_utils [row ''A'' ''compute'' ''hour'' 1 1 [] 0 10] (Some 0) (Some 10) = [''A'']
   \<and> get_tenants sample_utils [row ''A'' ''compute'' ''hour'' 1 1 [] 0 10] (Some 10) (Some 20) = []
   \<and> get_total sample_utils [row ''A'' ''compute'' ''hour'' 1 1 [] 0 10] (Some 10) (Some 20)
       None None = None"
  by code_simp

subsection \<open>The total of a project\<close>

lemma listed_rate_Nil: "listed_rate [] = 0"
  by (simp add: listed_rate_def)

lemma listed_rate_append: "listed_rate (xs @ ys) = listed_rate xs + listed_rate ys"
  by (simp add: listed_rate_def)

lemma listed_rate_Cons: "listed_rate ((k, v) # tu) =
   (case v of Usages es \<Rightarrow> sum_list (map entry_rate es) | TotalRate _ \<Rightarrow> 0) + listed_rate tu"
  by (simp add: listed_rate_def)

lemma listed_rate_update_total:
  "map_of tu k = Some (TotalRate t) \<Longrightarrow> listed_rate (AList.update k (TotalRate t') tu) = listed_rate tu"
  by (induction tu) (auto simp: listed_rate_Cons)

lemma listed_rate_update_usages:
  "map_of tu k = Some (Usages es) \<Longrightarrow>
   listed_rate (AList.update k (Usages (es @ [en])) tu) = listed_rate tu + entry_rate en"
  by (induction tu) (auto simp: listed_rate_Cons)

lemma map_of_setdefault:
  "map_of (setdefault k v d) k' = (if k' = k then Some (setdefault_value k v d) else map_of d k')"
  by (auto simp: setdefault_def setdefault_value_def map_of_append map_add_def split: option.splits)

lemma distinct_setdefault: "distinct (map fst d) \<Longrightarrow> distinct (map fst (setdefault k v d))"
  by (auto simp: setdefault_def map_of_eq_None_iff split: option.splits)

lemma listed_rate_setdefault:
  "listed_rate (setdefault k (Usages []) tu) = listed_rate tu"
  "listed_rate (setdefault k (TotalRate 0) tu) = listed_rate tu"
  by (auto simp: setdefault_def listed_rate_append listed_rate_Cons listed_rate_Nil split: option.splits)

text \<open>The tenant's dictionary after one pass of the loop body.\<close>

lemma tenant_step_ok:
  assumes tu: "(tu = [] \<and> rates = []) \<or> tenant_ok tu rates"
    and tu1: "tu1 = setdefault ''total'' (TotalRate 0) tu"
    and t: "setdefault_value ''total'' (TotalRate 0) tu1 = TotalRate t"
    and tu2: "tu2 = AList.update ''total'' (TotalRate (decimal_add t x)) tu1"
    and tu3: "tu3 = setdefault rt (Usages []) tu2"
    and es: "setdefault_value rt (Usages []) tu3 = Usages es"
    and tu4: "tu4 = AList.update rt (Usages (es @ [en])) tu3"
    and x: "entry_rate en = x"
  shows "tenant_ok tu4 (rates @ [x])"
proof -
  have ok1: "tenant_ok tu1 rates"
    using tu unfolding tu1
    by (auto simp: tenant_ok_def setdefault_def listed_rate_def)
  then have m1: "map_of tu1 ''total'' = Some (TotalRate (foldl decimal_add 0 rates))"
    and d1: "distinct (map fst tu1)" and l1: "listed_rate tu1 = sum_list rates"
    by (auto simp: tenant_ok_def)
  from t m1 have t_eq: "t = foldl decimal_add 0 rates"
    by (simp add: setdefault_value_def)
  have l2: "listed_rate tu2 = listed_rate tu1"
    unfolding tu2 using m1 by (rule listed_rate_update_total)
  have m2: "map_of tu2 ''total'' = Some (TotalRate (decimal_add t x))"
    unfolding tu2 by (simp add: update_conv')
  have d2: "distinct (map fst tu2)"
    unfolding tu2 using d1 by (rule distinct_update)
  have l3: "listed_rate tu3 = listed_rate tu1"
    unfolding tu3 using l2 by (simp add: listed_rate_setdefault)
  have d3: "distinct (map fst tu3)"
    unfolding tu3 using d2 by (rule distinct_setdefault)
  have m3rt: "map_of tu3 rt = Some (Usages es)"
    using es unfolding tu3 by (simp add: map_of_setdefault setdefault_value_def)
  have m3: "map_of tu3 ''total'' = Some (TotalRate (decimal_add t x))"
    using m2 unfolding tu3 by (auto simp: map_of_setdefault setdefault_value_def)
  from m3 m3rt have ne: "rt \<noteq> ''total''" by auto
  have l4: "listed_rate tu4 = listed_rate tu1 + x"
    unfolding tu4 using listed_rate_update_usages [OF m3rt] l3 x by simp
  have m4: "map_of tu4 ''total'' = Some (TotalRate (decimal_add t x))"
    unfolding tu4 using m3 ne by (simp add: update_conv')
  have d4: "distinct (map fst tu4)"
    unfolding tu4 using d3 by (rule distinct_update)
  show ?thesis
    using l4 m4 d4 t_eq l1 by (simp add: tenant_ok_def)
qed

lemma project_usage_step_ok:
  assumes "project_usage_step usage r = Inr usage'" and "usage_inv usage seen"
  shows "usage_inv usage' (seen @ [r])"
proof -
  let ?t = "p_tenant_id r"
  let ?usage1 = "setdefault ?t [] usage"
  let ?tu = "setdefault_value ?t [] usage"
  let ?rates = "map p_rate [r \<leftarrow> seen. p_tenant_id r = ?t]"
  from assms(2) have inv: "case map_of usage t of
                None \<Rightarrow> [r \<leftarrow> seen. p_tenant_id r = t] = []
              | Some tu \<Rightarrow> tenant_ok tu (map p_rate [r \<leftarrow> seen. p_tenant_id r = t])" for t
    by (simp add: usage_inv_def)
  have tu: "(?tu = [] \<and> ?rates = []) \<or> tenant_ok ?tu ?rates"
    using inv [of ?t] by (auto simp: setdefault_value_def split: option.splits)
  have sv: "setdefault_value ?t [] ?usage1 = ?tu"
    by (auto simp: setdefault_value_def setdefault_def split: option.splits)
  let ?tu1 = "setdefault ''total'' (TotalRate 0) ?tu"
  from assms(1) obtain t where t: "setdefault_value ''total'' (TotalRate 0) ?tu1 = TotalRate t"
    by (auto simp: project_usage_step_def Let_def sv split: tenant_value.splits)
  let ?tu2 = "AList.update ''total'' (TotalRate (decimal_add t (p_rate r))) ?tu1"
  let ?tu3 = "setdefault (p_res_type r) (Usages []) ?tu2"
  from assms(1) t obtain es where es: "setdefault_value (p_res_type r) (Usages []) ?tu3 = Usages es"
    by (auto simp: project_usage_step_def Let_def sv split: tenant_value.splits)
  let ?en = "\<lparr>entry_qty = p_qty r, entry_unit = p_unit r, entry_rate = p_rate r\<rparr>"
  let ?tu4 = "AList.update (p_res_type r) (Usages (es @ [?en])) ?tu3"
  have u': "usage' = AList.update ?t ?tu4 ?usage1"
    using assms(1) t es by (simp add: project_usage_step_def Let_def sv)
  have ok4: "tenant_ok ?tu4 (?rates @ [p_rate r])"
    by (rule tenant_step_ok [OF tu refl t refl refl es refl]) simp
  have d: "distinct (map fst usage')"
    unfolding u' using assms(2) by (auto simp: usage_inv_def intro!: distinct_update distinct_setdefault)
  have m: "map_of usage' = (map_of usage)(?t \<mapsto> ?tu4)"
    unfolding u' by (rule ext) (simp add: update_conv' map_of_setdefault)
  have "case map_of usage' k of
                None \<Rightarrow> [r \<leftarrow> seen @ [r]. p_tenant_id r = k] = []
              | Some tu \<Rightarrow> tenant_ok tu (map p_rate [r \<leftarrow> seen @ [r]. p_tenant_id r = k])" for k
  proof (cases "k = ?t")
    case True
    then show ?thesis using ok4 m by simp
  next
    case False
    then show ?thesis using inv [of k] m by (simp split: option.splits)
  qed
  with d show ?thesis by (simp add: usage_inv_def)
qed

lemma project_usage_loop_ok:
  "project_usage_loop usage rs = Inr usage' \<Longrightarrow> usage_inv usage seen \<Longrightarrow>
   usage_inv usage' (seen @ rs)"
proof (induction rs arbitrary: usage seen)
  case Nil
  then show ?case by simp
next
  case (Cons r rs)
  from Cons.prems(1) obtain usage1 where
    s: "project_usage_step usage r = Inr usage1" and
    l: "project_usage_loop usage1 rs = Inr usage'"
    by (auto split: sum.splits)
  from project_usage_step_ok [OF s Cons.prems(2)] have "usage_inv usage1 (seen @ [r])" .
  from Cons.IH [OF l this] show ?case by simp
qed

text \<open>
  C6, as amended. In every mapping that \<^verbatim>\<open>get_project_usage\<close> returns, and for
  every tenant in it, the rate under \<^verbatim>\<open>'total'\<close> is the rates of the tenant's rows
  added up from 0 in the order the query returns them, each addition rounded to the
  28 significant digits of the decimal context. The rates of all entries of all
  lists of resource types of that tenant are the rates of these rows, and the total
  is their exact sum when no addition is rounded. The keys of the mapping and of
  the tenant's dictionary are distinct.
\<close>

theorem project_total_is_rounded_sum:
  assumes "get_project_usage u table b e tenant service = Inr usage"
    and "map_of usage t = Some tu"
  shows "(let rates = map p_rate
                [r \<leftarrow> project_usage_query u table b e tenant service. p_tenant_id r = t];
              listed = (\<Sum>(k, v) \<leftarrow> tu. case v of Usages es \<Rightarrow> sum_list (map entry_rate es)
                                               | TotalRate _ \<Rightarrow> 0)
          in map_of tu ''total'' = Some (TotalRate (foldl decimal_add 0 rates))
           \<and> listed = sum_list rates
           \<and> (exact_sums 0 rates \<longrightarrow> map_of tu ''total'' = Some (TotalRate listed)))
       \<and> distinct (map fst usage) \<and> distinct (map fst tu)"
proof -
  have "usage_inv [] []" by (simp add: usage_inv_def)
  with assms(1) have ok: "usage_inv usage ([] @ project_usage_query u table b e tenant service)"
    unfolding get_project_usage_def by (rule project_usage_loop_ok)
  then have "tenant_ok tu (map p_rate
       [r \<leftarrow> project_usage_query u table b e tenant service. p_tenant_id r = t])"
    using assms(2) by (auto simp: usage_inv_def split: option.splits dest: spec [of _ t])
  with ok show ?thesis
    using foldl_exact_sums [of 0 "map p_rate
       [r \<leftarrow> project_usage_query u table b e tenant service. p_tenant_id r = t]"]
    by (simp add: tenant_ok_def listed_rate_def usage_inv_def Let_def)
qed

theorem project_total_is_rounded_sum_witness:
  "get_project_usage sample_utils
     [row ''C'' ''compute'' ''hour'' 5 1 [] 0 100, row ''C'' ''image'' ''MB'' 3 (5 / 2) [] 0 100,
      row ''C'' ''compute'' ''hour'' 3 2 [] 0 100, row ''D'' ''image'' ''MB'' 1 4 [] 0 100]
     None None None None =
   Inr [(''C'', [(''total'', TotalRate (11 / 2)),
           (''image'', Usages [\<lparr>entry_qty = 3, entry_unit = ''MB'', entry_rate = 5 / 2\<rparr>]),
           (''compute'', Usages [\<lparr>entry_qty = 8, entry_unit = ''hour'', entry_rate = 3\<rparr>])]),
        (''D'', [(''total'', TotalRate 4),
           (''image'', Usages [\<lparr>entry_qty = 1, entry_unit = ''MB'', entry_rate = 4\<rparr>])])]
   \<and> map_of [(''total'', TotalRate (11 / 2)),
           (''image'', Usages [\<lparr>entry_qty = 3, entry_unit = ''MB'', entry_rate = 5 / 2\<rparr>]),
           (''compute'', Usages [\<lparr>entry_qty = 8, entry_unit = ''hour'', entry_rate = 3\<rparr>])]
        ''total'' = Some (TotalRate (5 / 2 + 3))"
proof -
  let ?T = "[row ''C'' ''compute'' ''hour'' 5 1 [] 0 100, row ''C'' ''image'' ''MB'' 3 (5 / 2) [] 0 100,
      row ''C'' ''compute'' ''hour'' 3 2 [] 0 100, row ''D'' ''image'' ''MB'' 1 4 [] 0 100]"
  let ?C = "[(''total'', TotalRate (11 / 2)),
           (''image'', Usages [\<lparr>entry_qty = 3, entry_unit = ''MB'', entry_rate = 5 / 2\<rparr>]),
           (''compute'', Usages [\<lparr>entry_qty = 8, entry_unit = ''hour'', entry_rate = 3\<rparr>])]"
  let ?U = "[(''C'', ?C),
        (''D'', [(''total'', TotalRate 4),
           (''image'', Usages [\<lparr>entry_qty = 1, entry_unit = ''MB'', entry_rate = 4\<rparr>])])]"
  have h1: "get_project_usage sample_utils ?T None None None None = Inr ?U"
    by code_simp
  have h2: "map_of ?U ''C'' = Some ?C"
    by simp
  have rates: "map p_rate [r \<leftarrow> project_usage_query sample_utils ?T None None None None.
      p_tenant_id r = ''C''] = [5 / 2, 3]"
    by code_simp
  have ex: "exact_sums 0 [5 / 2, 3]"
    by code_simp
  from project_total_is_rounded_sum [OF h1 h2, unfolded Let_def rates] ex
  have "map_of ?C ''total'' = Some (TotalRate (5 / 2 + 3))"
    by simp
  with h1 show ?thesis by simp
qed

text \<open>
  Two rows of one tenant with rates \<open>10\<^sup>2\<^sup>8\<close> and 1: the total is rounded to 28
  digits and is not the sum of the rates of the two entries, against C6 as it is
  stated.
\<close>

theorem project_total_rounds:
  "get_project_usage sample_utils
     [row ''C'' ''compute'' ''hour'' 1 10000000000000000000000000000 [] 0 100,
      row ''C'' ''image'' ''MB'' 1 1 [] 0 100] None None None None =
   Inr [(''C'',
       [(''total'', TotalRate 10000000000000000000000000000),
        (''compute'', Usages [\<lparr>entry_qty = 1, entry_unit = ''hour'',
              entry_rate = 10000000000000000000000000000\<rparr>]),
        (''image'', Usages [\<lparr>entry_qty = 1, entry_unit = ''MB'', entry_rate = 1\<rparr>])])]
   \<and> sum_list (map entry_rate
        [\<lparr>entry_qty = 1, entry_unit = ''hour'', entry_rate = 10000000000000000000000000000\<rparr>,
         \<lparr>entry_qty = 1, entry_unit = ''MB'', entry_rate = 1\<rparr>])
      = 10000000000000000000000000001"
  by code_simp

subsection \<open>Instances\<close>

lemma map_of_setdefault_upd:
  "map_of (setdefault k v d) = (map_of d)(k \<mapsto> setdefault_value k v d)"
  by (rule ext) (simp add: map_of_setdefault)

lemma setdefault_value_setdefault:
  "setdefault_value k v (setdefault k v d) = setdefault_value k v d"
  by (auto simp: setdefault_value_def setdefault_def split: option.splits)

lemma setdefault_value_cases:
  "(map_of d k = None \<and> setdefault_value k v d = v) \<or> map_of d k = Some (setdefault_value k v d)"
  by (auto simp: setdefault_value_def split: option.splits)

lemma holds_append:
  "holds (Entries es) en \<Longrightarrow> holds (Entries (es @ [new])) en"
  "holds (Names ns) en \<Longrightarrow> holds (Names (ns @ [Appended new])) en"
  "holds (Entries (es @ [new])) new"
  "holds (Names (ns @ [Appended new])) new"
  by (auto simp: holds_def)

lemma instance_usage_step_Inr:
  assumes "instance_usage_step usage r = Inr usage'"
    and "tu = setdefault_value (i_tenant_id r) [] usage"
    and "iu = setdefault_value (i_instance_id r)
           [(''instance_name'', Names (map Name (i_instance_name r))),
            (''instance_id'', Ident (i_instance_id r))] tu"
    and "v = setdefault_value (i_res_type r) (Entries []) iu"
  shows "\<exists>tu' iu' v'.
      map_of usage' = (map_of usage)(i_tenant_id r \<mapsto> tu')
    \<and> map_of tu' = (map_of tu)(i_instance_id r \<mapsto> iu')
    \<and> map_of iu' = (map_of iu)(i_res_type r \<mapsto> v')
    \<and> holds v' \<lparr>entry_qty = i_qty r, entry_unit = i_unit r, entry_rate = i_rate r\<rparr>
    \<and> (\<forall>en. holds v en \<longrightarrow> holds v' en)
    \<and> (\<forall>x. v \<noteq> Ident x)"
proof -
  let ?new = "\<lparr>entry_qty = i_qty r, entry_unit = i_unit r, entry_rate = i_rate r\<rparr>"
  let ?fresh = "[(''instance_name'', Names (map Name (i_instance_name r))),
            (''instance_id'', Ident (i_instance_id r))]"
  let ?usage1 = "setdefault (i_tenant_id r) [] usage"
  let ?tu1 = "setdefault (i_instance_id r) ?fresh tu"
  let ?iu1 = "setdefault (i_res_type r) (Entries []) iu"
  have step: "instance_usage_step usage r =
     (case v of
        Ident _ \<Rightarrow> Inl AttributeError
      | Names ns \<Rightarrow> Inr (AList.update (i_tenant_id r) (AList.update (i_instance_id r)
           (AList.update (i_res_type r) (Names (ns @ [Appended ?new])) ?iu1) ?tu1) ?usage1)
      | Entries es \<Rightarrow> Inr (AList.update (i_tenant_id r) (AList.update (i_instance_id r)
           (AList.update (i_res_type r) (Entries (es @ [?new])) ?iu1) ?tu1) ?usage1))"
    unfolding assms(2,3,4) instance_usage_step_def Let_def setdefault_value_setdefault
    by (rule refl)
  show ?thesis
  proof (cases v)
    case (Ident x)
    with step assms(1) show ?thesis by simp
  next
    case (Names ns)
    let ?v' = "Names (ns @ [Appended ?new])"
    let ?iu' = "AList.update (i_res_type r) ?v' ?iu1"
    let ?tu' = "AList.update (i_instance_id r) ?iu' ?tu1"
    have u: "usage' = AList.update (i_tenant_id r) ?tu' ?usage1"
      using step assms(1) Names by simp
    have "map_of usage' = (map_of usage)(i_tenant_id r \<mapsto> ?tu')"
      unfolding u by (simp add: update_conv' map_of_setdefault_upd)
    moreover have "map_of ?tu' = (map_of tu)(i_instance_id r \<mapsto> ?iu')"
      by (simp add: update_conv' map_of_setdefault_upd)
    moreover have "map_of ?iu' = (map_of iu)(i_res_type r \<mapsto> ?v')"
      by (simp add: update_conv' map_of_setdefault_upd)
    moreover have "holds ?v' ?new" by (rule holds_append)
    moreover have "\<forall>en. holds v en \<longrightarrow> holds ?v' en"
      unfolding Names by (simp add: holds_append)
    moreover have "\<forall>x. v \<noteq> Ident x" using Names by simp
    ultimately show ?thesis by blast
  next
    case (Entries es)
    let ?v' = "Entries (es @ [?new])"
    let ?iu' = "AList.update (i_res_type r) ?v' ?iu1"
    let ?tu' = "AList.update (i_instance_id r) ?iu' ?tu1"
    have u: "usage' = AList.update (i_tenant_id r) ?tu' ?usage1"
      using step assms(1) Entries by simp
    have "map_of usage' = (map_of usage)(i_tenant_id r \<mapsto> ?tu')"
      unfolding u by (simp add: update_conv' map_of_setdefault_upd)
    moreover have "map_of ?tu' = (map_of tu)(i_instance_id r \<mapsto> ?iu')"
      by (simp add: update_conv' map_of_setdefault_upd)
    moreover have "map_of ?iu' = (map_of iu)(i_res_type r \<mapsto> ?v')"
      by (simp add: update_conv' map_of_setdefault_upd)
    moreover have "holds ?v' ?new" by (rule holds_append)
    moreover have "\<forall>en. holds v en \<longrightarrow> holds ?v' en"
      unfolding Entries by (simp add: holds_append)
    moreover have "\<forall>x. v \<noteq> Ident x" using Entries by simp
    ultimately show ?thesis by blast
  qed
qed

lemma instance_usage_step_ok:
  assumes step: "instance_usage_step usage r = Inr usage'" and ok: "ids_ok usage"
  shows "filed usage' r \<and> ids_ok usage' \<and> (\<forall>r0. filed usage r0 \<longrightarrow> filed usage' r0)"
proof -
  let ?t = "i_tenant_id r" and ?i = "i_instance_id r" and ?rt = "i_res_type r"
  let ?fresh = "[(''instance_name'', Names (map Name (i_instance_name r))),
            (''instance_id'', Ident (i_instance_id r))]"
  let ?tu = "setdefault_value ?t [] usage"
  let ?iu = "setdefault_value ?i ?fresh ?tu"
  let ?v = "setdefault_value ?rt (Entries []) ?iu"
  let ?new = "\<lparr>entry_qty = i_qty r, entry_unit = i_unit r, entry_rate = i_rate r\<rparr>"
  from instance_usage_step_Inr [OF step refl refl refl]
  obtain tu' iu' v' where
    mu: "map_of usage' = (map_of usage)(?t \<mapsto> tu')" and
    mt: "map_of tu' = (map_of ?tu)(?i \<mapsto> iu')" and
    mi: "map_of iu' = (map_of ?iu)(?rt \<mapsto> v')" and
    hv: "holds v' ?new" and
    mono: "\<And>en. holds ?v en \<Longrightarrow> holds v' en" and
    nid: "\<And>x. ?v \<noteq> Ident x"
    by blast
  have tu_cases: "(map_of usage ?t = None \<and> ?tu = []) \<or> map_of usage ?t = Some ?tu"
    by (rule setdefault_value_cases)
  have iu_cases: "(map_of ?tu ?i = None \<and> ?iu = ?fresh) \<or> map_of ?tu ?i = Some ?iu"
    by (rule setdefault_value_cases)
  have v_cases: "(map_of ?iu ?rt = None \<and> ?v = Entries []) \<or> map_of ?iu ?rt = Some ?v"
    by (rule setdefault_value_cases)
  have id_iu: "map_of ?iu ''instance_id'' = Some (Ident ?i)"
    using iu_cases tu_cases ok by (auto simp: ids_ok_def)
  have rt_ne: "?rt \<noteq> ''instance_id''"
  proof
    assume "?rt = ''instance_id''"
    then have "map_of ?iu ?rt = Some (Ident ?i)" using id_iu by simp
    then have "?v = Ident ?i" by (simp add: setdefault_value_def)
    with nid show False by blast
  qed
  have id_iu': "map_of iu' ''instance_id'' = Some (Ident ?i)"
    using mi id_iu rt_ne by simp
  have filed_r: "filed usage' r"
    unfolding filed_def using mu mt mi hv id_iu' by auto
  have ids: "ids_ok usage'"
    unfolding ids_ok_def
  proof (intro allI impI)
    fix t tu iid iu
    assume a: "map_of usage' t = Some tu" and b: "map_of tu iid = Some iu"
    show "map_of iu ''instance_id'' = Some (Ident iid)"
    proof (cases "t = ?t")
      case False
      then show ?thesis using a b mu ok by (auto simp: ids_ok_def)
    next
      case True
      then have tu: "tu = tu'" using a mu by simp
      show ?thesis
      proof (cases "iid = ?i")
        case True
        then have "iu = iu'" using b tu mt by simp
        then show ?thesis using id_iu' True by simp
      next
        case False
        then have "map_of ?tu iid = Some iu" using b tu mt by simp
        then show ?thesis using tu_cases ok by (auto simp: ids_ok_def)
      qed
    qed
  qed
  have keep: "filed usage' r0" if f0: "filed usage r0" for r0
  proof -
    let ?new0 = "\<lparr>entry_qty = i_qty r0, entry_unit = i_unit r0, entry_rate = i_rate r0\<rparr>"
    from f0 obtain tu0 iu0 v0 where
      a: "map_of usage (i_tenant_id r0) = Some tu0" and
      b: "map_of tu0 (i_instance_id r0) = Some iu0" and
      c: "map_of iu0 ''instance_id'' = Some (Ident (i_instance_id r0))" and
      d: "map_of iu0 (i_res_type r0) = Some v0" and
      e: "holds v0 ?new0"
      unfolding filed_def by blast
    show ?thesis
    proof (cases "i_tenant_id r0 = ?t")
      case False
      then show ?thesis unfolding filed_def using a b c d e mu by auto
    next
      case t: True
      then have tu0: "tu0 = ?tu" using a tu_cases by auto
      show ?thesis
      proof (cases "i_instance_id r0 = ?i")
        case False
        then show ?thesis unfolding filed_def using t tu0 b c d e mu mt by auto
      next
        case i: True
        then have iu0: "iu0 = ?iu" using b tu0 iu_cases by auto
        show ?thesis
        proof (cases "i_res_type r0 = ?rt")
          case False
          then show ?thesis unfolding filed_def using t i iu0 c d e mu mt mi rt_ne by auto
        next
          case True
          then have "v0 = ?v" using d iu0 v_cases by auto
          then have "holds v' ?new0" using e mono by simp
          then show ?thesis unfolding filed_def using t i True id_iu' mu mt mi by auto
        qed
      qed
    qed
  qed
  from filed_r ids keep show ?thesis by blast
qed

lemma instance_usage_loop_ok:
  "instance_usage_loop usage rs = Inr usage' \<Longrightarrow> ids_ok usage \<Longrightarrow>
   ids_ok usage' \<and> (\<forall>r\<in>set rs. filed usage' r) \<and> (\<forall>r0. filed usage r0 \<longrightarrow> filed usage' r0)"
proof (induction rs arbitrary: usage)
  case Nil
  then show ?case by simp
next
  case (Cons r rs)
  from Cons.prems(1) obtain usage1 where
    s: "instance_usage_step usage r = Inr usage1" and
    l: "instance_usage_loop usage1 rs = Inr usage'"
    by (auto split: sum.splits)
  from instance_usage_step_ok [OF s Cons.prems(2)]
  have 1: "filed usage1 r" "ids_ok usage1" "\<And>r0. filed usage r0 \<Longrightarrow> filed usage1 r0"
    by blast+
  from Cons.IH [OF l 1(2)]
  have 2: "ids_ok usage'" "\<And>r. r \<in> set rs \<Longrightarrow> filed usage' r"
    "\<And>r0. filed usage1 r0 \<Longrightarrow> filed usage' r0"
    by blast+
  show ?case using 1 2 by auto
qed


lemma instance_usage_query_row:
  assumes "f \<in> set table" and "res_type f \<noteq> ''_NO_DATA_''"
    and "wanted tenant (tenant_id f)" and "wanted service (res_type f)"
    and "col_ge (frame_begin f) (boundary b (get_month_start u))"
    and "col_le (frame_end f) (boundary e (get_next_month u))"
    and "grp = [g \<leftarrow> table. wanted tenant (tenant_id g) \<and> wanted service (res_type g)
          \<and> col_ge (frame_begin g) (boundary b (get_month_start u))
          \<and> col_le (frame_end g) (boundary e (get_next_month u))
          \<and> res_type g \<noteq> ''_NO_DATA_''
          \<and> tenant_id g = tenant_id f \<and> res_type g = res_type f \<and> unit g = unit f
          \<and> instance_id_case g = instance_id_case f]"
  shows "\<lparr>i_tenant_id = tenant_id f, i_res_type = res_type f, i_unit = unit f,
          i_instance_id = instance_id_case f,
          i_instance_name = remdups (map instance_name_case grp),
          i_qty = sum_list (map qty grp), i_rate = sum_list (map rate grp)\<rparr>
         \<in> set (instance_usage_query u table b e tenant service)"
    and "f \<in> set grp"
proof -
  let ?q = "[g \<leftarrow> table. wanted tenant (tenant_id g) \<and> wanted service (res_type g)
          \<and> col_ge (frame_begin g) (boundary b (get_month_start u))
          \<and> col_le (frame_end g) (boundary e (get_next_month u))
          \<and> res_type g \<noteq> ''_NO_DATA_'']"
  let ?key = "\<lambda>f. (tenant_id f, res_type f, unit f, instance_id_case f)"
  have q: "instance_usage_query u table b e tenant service =
      map (\<lambda>((t, rt, un, iid), g).
                \<lparr>i_tenant_id = t, i_res_type = rt, i_unit = un,
                 i_instance_id = iid,
                 i_instance_name = remdups (map instance_name_case g),
                 i_qty = sum_list (map qty g),
                 i_rate = sum_list (map rate g)\<rparr>) (group_by ?key ?q)"
    by (simp add: instance_usage_query_def Let_def filter_eq_wanted conj_ac)
  have fq: "f \<in> set ?q" using assms(1-6) by simp
  have g: "grp = filter (\<lambda>g. ?key g = ?key f) ?q"
    unfolding assms(7) by (simp add: conj_ac)
  from fq have "(?key f, grp) \<in> set (group_by ?key ?q)"
    unfolding g group_by_def by (auto simp: image_iff)
  then show "\<lparr>i_tenant_id = tenant_id f, i_res_type = res_type f, i_unit = unit f,
          i_instance_id = instance_id_case f,
          i_instance_name = remdups (map instance_name_case grp),
          i_qty = sum_list (map qty grp), i_rate = sum_list (map rate grp)\<rparr>
         \<in> set (instance_usage_query u table b e tenant service)"
    unfolding q by (force simp: image_iff)
  show "f \<in> set grp" using fq unfolding g by simp
qed

text \<open>
  C9. Let a row of the table that is no sentinel pass the filters and the window of
  \<^verbatim>\<open>get_instance_usage\<close>. Its instance id is the member
  \<^verbatim>\<open>properties.instance_uuid\<close> of \<^verbatim>\<open>desc\<close> when the resource type is \<^verbatim>\<open>image\<close>,
  and the member \<^verbatim>\<open>instance_id\<close> otherwise; its instance name is the member
  \<^verbatim>\<open>name\<close> for \<^verbatim>\<open>compute\<close>, \<^verbatim>\<open>display_name\<close> for the two bandwidth types, and
  \<^verbatim>\<open>instance_name\<close> otherwise. The query has a group with the row's tenant,
  resource type, unit and this instance id, whose array of names holds this name;
  and in every mapping returned, the entry of that group stands under the row's
  tenant, under this instance id, in a dictionary that carries this id, under the
  row's resource type.
\<close>

theorem instance_usage_classification:
  assumes "get_instance_usage u table b e tenant service = Inr usage"
    and "f \<in> set table" and "res_type f \<noteq> ''_NO_DATA_''"
    and "wanted tenant (tenant_id f)" and "wanted service (res_type f)"
    and "col_ge (frame_begin f) (boundary b (get_month_start u))"
    and "col_le (frame_end f) (boundary e (get_next_month u))"
  shows "instance_id_case f =
           (if res_type f = ''image'' then astext (desc f) ''properties.instance_uuid''
            else astext (desc f) ''instance_id'')
       \<and> instance_name_case f =
           (if res_type f = ''compute'' then astext (desc f) ''name''
            else if res_type f = ''network.bw.in'' \<or> res_type f = ''network.bw.out''
              then astext (desc f) ''display_name''
            else astext (desc f) ''instance_name'')
       \<and> (\<exists>r \<in> set (instance_usage_query u table b e tenant service).
             i_tenant_id r = tenant_id f \<and> i_res_type r = res_type f \<and> i_unit r = unit f
           \<and> i_instance_id r = instance_id_case f
           \<and> instance_name_case f \<in> set (i_instance_name r)
           \<and> (\<exists>tu iu v. map_of usage (tenant_id f) = Some tu
                \<and> map_of tu (instance_id_case f) = Some iu
                \<and> map_of iu ''instance_id'' = Some (Ident (instance_id_case f))
                \<and> map_of iu (res_type f) = Some v
                \<and> holds v \<lparr>entry_qty = i_qty r, entry_unit = unit f, entry_rate = i_rate r\<rparr>))"
proof -
  define grp where "grp = [g \<leftarrow> table. wanted tenant (tenant_id g) \<and> wanted service (res_type g)
          \<and> col_ge (frame_begin g) (boundary b (get_month_start u))
          \<and> col_le (frame_end g) (boundary e (get_next_month u))
          \<and> res_type g \<noteq> ''_NO_DATA_''
          \<and> tenant_id g = tenant_id f \<and> res_type g = res_type f \<and> unit g = unit f
          \<and> instance_id_case g = instance_id_case f]"
  define r where "r = \<lparr>i_tenant_id = tenant_id f, i_res_type = res_type f, i_unit = unit f,
          i_instance_id = instance_id_case f,
          i_instance_name = remdups (map instance_name_case grp),
          i_qty = sum_list (map qty grp), i_rate = sum_list (map rate grp)\<rparr>"
  have r_in: "r \<in> set (instance_usage_query u table b e tenant service)"
    and f_in: "f \<in> set grp"
    using instance_usage_query_row [OF assms(2-7) grp_def] unfolding r_def by blast+
  have "ids_ok []" by (simp add: ids_ok_def)
  with assms(1) have "\<forall>r\<in>set (instance_usage_query u table b e tenant service). filed usage r"
    unfolding get_instance_usage_def by (blast dest: instance_usage_loop_ok)
  with r_in have "filed usage r" by blast
  then have filed: "\<exists>tu iu v. map_of usage (tenant_id f) = Some tu
                \<and> map_of tu (instance_id_case f) = Some iu
                \<and> map_of iu ''instance_id'' = Some (Ident (instance_id_case f))
                \<and> map_of iu (res_type f) = Some v
                \<and> holds v \<lparr>entry_qty = i_qty r, entry_unit = unit f, entry_rate = i_rate r\<rparr>"
    unfolding filed_def by (simp add: r_def)
  have name: "instance_name_case f \<in> set (i_instance_name r)"
    using f_in by (simp add: r_def)
  have keys: "i_tenant_id r = tenant_id f \<and> i_res_type r = res_type f \<and> i_unit r = unit f
           \<and> i_instance_id r = instance_id_case f"
    by (simp add: r_def)
  have "\<exists>r \<in> set (instance_usage_query u table b e tenant service).
             i_tenant_id r = tenant_id f \<and> i_res_type r = res_type f \<and> i_unit r = unit f
           \<and> i_instance_id r = instance_id_case f
           \<and> instance_name_case f \<in> set (i_instance_name r)
           \<and> (\<exists>tu iu v. map_of usage (tenant_id f) = Some tu
                \<and> map_of tu (instance_id_case f) = Some iu
                \<and> map_of iu ''instance_id'' = Some (Ident (instance_id_case f))
                \<and> map_of iu (res_type f) = Some v
                \<and> holds v \<lparr>entry_qty = i_qty r, entry_unit = unit f, entry_rate = i_rate r\<rparr>)"
    using r_in keys name filed by blast
  then show ?thesis
    by (simp add: instance_id_case_def instance_name_case_def)
qed

theorem instance_usage_classification_witness:
  "get_instance_usage sample_utils
     [row ''T'' ''image'' ''GB'' 1 1 [(''properties.instance_uuid'', Some ''u1'')] 0 100,
      row ''T'' ''compute'' ''hour'' 5 2 [(''instance_id'', Some ''u1''), (''name'', Some ''vm1'')]
        0 100,
      row ''T'' ''network.bw.in'' ''MB'' 7 0
        [(''instance_id'', Some ''u2''), (''display_name'', Some ''vm2''), (''name'', Some ''x'')]
        0 100]
     None None None None =
   Inr [(''T'',
       [(Some ''u1'',
         [(''instance_name'', Names [Name None]),
          (''instance_id'', Ident (Some ''u1'')),
          (''image'', Entries [\<lparr>entry_qty = 1, entry_unit = ''GB'', entry_rate = 1\<rparr>]),
          (''compute'', Entries [\<lparr>entry_qty = 5, entry_unit = ''hour'', entry_rate = 2\<rparr>])]),
        (Some ''u2'',
         [(''instance_name'', Names [Name (Some ''vm2'')]),
          (''instance_id'', Ident (Some ''u2'')),
          (''network.bw.in'', Entries [\<lparr>entry_qty = 7, entry_unit = ''MB'', entry_rate = 0\<rparr>])])])]
   \<and> instance_id_case (row ''T'' ''compute'' ''hour'' 5 2
         [(''instance_id'', Some ''u1''), (''name'', Some ''vm1'')] 0 100) = Some ''u1''
   \<and> instance_name_case (row ''T'' ''compute'' ''hour'' 5 2
         [(''instance_id'', Some ''u1''), (''name'', Some ''vm1'')] 0 100) = Some ''vm1''"
proof -
  let ?f = "row ''T'' ''compute'' ''hour'' 5 2
         [(''instance_id'', Some ''u1''), (''name'', Some ''vm1'')] 0 100"
  let ?T = "[row ''T'' ''image'' ''GB'' 1 1 [(''properties.instance_uuid'', Some ''u1'')] 0 100,
      ?f,
      row ''T'' ''network.bw.in'' ''MB'' 7 0
        [(''instance_id'', Some ''u2''), (''display_name'', Some ''vm2''), (''name'', Some ''x'')]
        0 100]"
  let ?U = "[(''T'',
       [(Some ''u1'',
         [(''instance_name'', Names [Name None]),
          (''instance_id'', Ident (Some ''u1'')),
          (''image'', Entries [\<lparr>entry_qty = 1, entry_unit = ''GB'', entry_rate = 1\<rparr>]),
          (''compute'', Entries [\<lparr>entry_qty = 5, entry_unit = ''hour'', entry_rate = 2\<rparr>])]),
        (Some ''u2'',
         [(''instance_name'', Names [Name (Some ''vm2'')]),
          (''instance_id'', Ident (Some ''u2'')),
          (''network.bw.in'', Entries [\<lparr>entry_qty = 7, entry_unit = ''MB'', entry_rate = 0\<rparr>])])])]"
  have h1: "get_instance_usage sample_utils ?T None None None None = Inr ?U"
    by code_simp
  have h2: "?f \<in> set ?T" by simp
  have h3: "res_type ?f \<noteq> ''_NO_DATA_''" by (simp add: row_def)
  have h4: "wanted None (tenant_id ?f)" and h5: "wanted None (res_type ?f)"
    by (simp_all add: wanted_def)
  have h6: "col_ge (frame_begin ?f) (boundary None (get_month_start sample_utils))"
    and h7: "col_le (frame_end ?f) (boundary None (get_next_month sample_utils))"
    by (simp_all add: row_def col_ge_def col_le_def boundary_def sample_utils_def)
  from instance_usage_classification [OF h1 h2 h3 h4 h5 h6 h7]
  have "instance_id_case ?f =
           (if res_type ?f = ''image'' then astext (desc ?f) ''properties.instance_uuid''
            else astext (desc ?f) ''instance_id'')"
    and "instance_name_case ?f =
           (if res_type ?f = ''compute'' then astext (desc ?f) ''name''
            else if res_type ?f = ''network.bw.in'' \<or> res_type ?f = ''network.bw.out''
              then astext (desc ?f) ''display_name''
            else astext (desc ?f) ''instance_name'')"
    by blast+
  then have "instance_id_case ?f = Some ''u1''" and "instance_name_case ?f = Some ''vm1''"
    by (simp_all add: row_def astext_def)
  with h1 show ?thesis by simp
qed

end
